theory Spec2Isabelle
  imports Complex_Main
begin

section \<open>JavaScript array primitives\<close>

text \<open>
  The engine is written in TypeScript.  Arrays are modelled as lists, and the few array
  methods the code relies on are written out with the behaviour JavaScript gives them at
  the edges: \<open>slice\<close> clamps its bounds and counts a negative bound from the end, reading an
  index outside the array gives \<open>undefined\<close> (here \<open>None\<close>), \<open>shift\<close> removes the first
  entry.  Indices and the capacity are JavaScript numbers that only ever hold integers in
  this code, so they are values of type \<open>int\<close>.
\<close>

definition js_rel_index :: "nat \<Rightarrow> int \<Rightarrow> nat" where
  "js_rel_index len i = (if i < 0 then nat (max (int len + i) 0) else min (nat i) len)"

definition js_slice :: "'a list \<Rightarrow> int \<Rightarrow> int \<Rightarrow> 'a list" where
  "js_slice xs start fin =
     (let k = js_rel_index (length xs) start;
          e = js_rel_index (length xs) fin
      in take (e - k) (drop k xs))"

definition js_slice_from :: "'a list \<Rightarrow> int \<Rightarrow> 'a list" where
  "js_slice_from xs start = drop (js_rel_index (length xs) start) xs"

definition js_index :: "'a list \<Rightarrow> int \<Rightarrow> 'a option" where
  "js_index xs i = (if 0 \<le> i \<and> i < int (length xs) then Some (xs ! nat i) else None)"

definition js_shift :: "'a list \<Rightarrow> 'a list" where
  "js_shift xs = drop 1 xs"

section \<open>Change records and the change tracker (ChangeTracker.ts)\<close>

datatype change_type = Add | Update | Delete

text \<open>
  A \<open>ChangeRecord\<close> as declared in the types module.  The two snapshots have the
  TypeScript type \<open>any\<close>; the model is polymorphic in what a snapshot is, and \<open>None\<close> is
  \<open>null\<close>.  The record id and the timestamp come from the clock and the random number
  generator, so \<open>recordChange\<close> receives them as arguments.
\<close>

record 'a ChangeRecord =
  cid :: string
  timestamp :: nat
  ctype :: change_type
  elementId :: string
  slideId :: string
  previousState :: "'a option"
  newState :: "'a option"
  description :: string

record 'a ChangeTracker =
  changes :: "'a ChangeRecord list"
  maxUndoSteps :: int
  currentIndex :: int

definition new_ChangeTracker :: "int \<Rightarrow> 'a ChangeTracker" where
  "new_ChangeTracker cap = \<lparr>changes = [], maxUndoSteps = cap, currentIndex = - 1\<rparr>"

definition recordChange ::
  "'a ChangeTracker \<Rightarrow> string \<Rightarrow> nat \<Rightarrow> change_type \<Rightarrow> string \<Rightarrow> string \<Rightarrow>
   'a option \<Rightarrow> 'a option \<Rightarrow> string \<Rightarrow> 'a ChangeTracker" where
  "recordChange t newId now ty eId sId prev new descr =
     (let kept = js_slice (changes t) 0 (currentIndex t + 1);
          change = \<lparr>cid = newId, timestamp = now, ctype = ty, elementId = eId,
                    slideId = sId, previousState = prev, newState = new,
                    description = descr\<rparr>;
          pushed = kept @ [change];
          idx = currentIndex t + 1
      in if int (length pushed) > maxUndoSteps t
         then t\<lparr>changes := js_shift pushed, currentIndex := idx - 1\<rparr>
         else t\<lparr>changes := pushed, currentIndex := idx\<rparr>)"

definition canUndo :: "'a ChangeTracker \<Rightarrow> bool" where
  "canUndo t = (currentIndex t \<ge> 0)"

definition canRedo :: "'a ChangeTracker \<Rightarrow> bool" where
  "canRedo t = (currentIndex t < int (length (changes t)) - 1)"

text \<open>
  \<open>undo\<close> and \<open>redo\<close> return a record or \<open>null\<close>, and move the cursor.  The result is an
  option: \<open>None\<close> stands for \<open>null\<close> (and for the \<open>undefined\<close> an out-of-range read would
  give; callers only test the result for truthiness).
\<close>

definition undo :: "'a ChangeTracker \<Rightarrow> 'a ChangeRecord option \<times> 'a ChangeTracker" where
  "undo t =
     (if \<not> canUndo t then (None, t)
      else (js_index (changes t) (currentIndex t), t\<lparr>currentIndex := currentIndex t - 1\<rparr>))"

definition redo :: "'a ChangeTracker \<Rightarrow> 'a ChangeRecord option \<times> 'a ChangeTracker" where
  "redo t =
     (if \<not> canRedo t then (None, t)
      else (js_index (changes t) (currentIndex t + 1), t\<lparr>currentIndex := currentIndex t + 1\<rparr>))"

definition getChangeHistory :: "'a ChangeTracker \<Rightarrow> 'a ChangeRecord list" where
  "getChangeHistory t = changes t"

definition getCurrentChangeIndex :: "'a ChangeTracker \<Rightarrow> int" where
  "getCurrentChangeIndex t = currentIndex t"

definition clearHistory :: "'a ChangeTracker \<Rightarrow> 'a ChangeTracker" where
  "clearHistory t = t\<lparr>changes := [], currentIndex := - 1\<rparr>"

datatype error = Error string

definition revertToChange ::
  "'a ChangeTracker \<Rightarrow> int \<Rightarrow> error + ('a ChangeRecord list \<times> 'a ChangeTracker)" where
  "revertToChange t changeIndex =
     (if changeIndex < 0 \<or> changeIndex \<ge> int (length (changes t))
      then Inl (Error ''Invalid change index'')
      else Inr (rev (js_slice_from (changes t) (changeIndex + 1)),
                t\<lparr>currentIndex := changeIndex\<rparr>))"

definition revertAllChanges :: "'a ChangeTracker \<Rightarrow> 'a ChangeRecord list \<times> 'a ChangeTracker" where
  "revertAllChanges t = (rev (changes t), clearHistory t)"

definition getChangesForElement :: "'a ChangeTracker \<Rightarrow> string \<Rightarrow> 'a ChangeRecord list" where
  "getChangesForElement t eId = filter (\<lambda>c. elementId c = eId) (changes t)"

definition getChangesForSlide :: "'a ChangeTracker \<Rightarrow> string \<Rightarrow> 'a ChangeRecord list" where
  "getChangesForSlide t sId = filter (\<lambda>c. slideId c = sId) (changes t)"

text \<open>Recording a sequence of mutations, one \<open>recordChange\<close> call per entry.\<close>

definition record_one :: "'a ChangeTracker \<Rightarrow> 'a ChangeRecord \<Rightarrow> 'a ChangeTracker" where
  "record_one t c =
     recordChange t (cid c) (timestamp c) (ctype c) (elementId c) (slideId c)
       (previousState c) (newState c) (description c)"

definition record_each :: "'a ChangeTracker \<Rightarrow> 'a ChangeRecord list \<Rightarrow> 'a ChangeTracker" where
  "record_each t cs = foldl record_one t cs"

text \<open>
  The state invariant of the tracker: the cursor is \<open>-1\<close> or the index of a stored record.
  With the capacity bound it is the invariant every operation keeps.
\<close>

definition cursor_ok :: "'a ChangeTracker \<Rightarrow> bool" where
  "cursor_ok t = (- 1 \<le> currentIndex t \<and> currentIndex t \<le> int (length (changes t)) - 1)"

definition tracker_inv :: "'a ChangeTracker \<Rightarrow> bool" where
  "tracker_inv t = (cursor_ok t \<and> int (length (changes t)) \<le> maxUndoSteps t)"


text \<open>
  A record as the repository's tests create them:
  \<open>recordChange('add', 'element-n', 'slide-1', null, {id: n}, 'Added element')\<close>.
\<close>

definition sample_change :: "nat \<Rightarrow> nat ChangeRecord" where
  "sample_change k = \<lparr>cid = ''change'', timestamp = k, ctype = Add, elementId = ''element'',
     slideId = ''slide-1'', previousState = None, newState = Some k,
     description = ''Added element''\<rparr>"

definition ten_changes :: "nat ChangeRecord list" where
  "ten_changes = [sample_change 10, sample_change 11, sample_change 12, sample_change 13,
     sample_change 14, sample_change 15, sample_change 16, sample_change 17, sample_change 18,
     sample_change 19]"

definition three_changes :: "nat ChangeRecord list" where
  "three_changes = [sample_change 10, sample_change 11, sample_change 12]"

section \<open>The document model (types module)\<close>

text \<open>
  Numbers are JavaScript numbers.  The model keeps exact rationals and \<open>NaN\<close>; rounding to
  double precision and the infinities are left out, and no property below depends on them.
\<close>

datatype jsnum = Num rat | NaN

text \<open>
  An XML part after \<open>xmlToObject\<close>: a string (an element that holds text only) or an
  object with an optional attribute map under the key \<open>$\<close> and, for every child tag, the
  array of converted children with that tag.  Keys are kept in insertion order, which is the
  order \<open>Object.keys\<close> enumerates them (no tag name is an integer index).
\<close>

datatype jsval = JStr string | JObj "(string \<times> string) list option" "(string \<times> jsval list) list"

datatype element_type = TextT | ImageT | ShapeT | ChartT | TableT

record Position =
  pos_x :: jsnum
  pos_y :: jsnum

record Size =
  sz_width :: jsnum
  sz_height :: jsnum

record ElementStyle =
  fontSize :: "jsnum option"
  fontFamily :: "string option"
  fontWeight :: "string option"
  color :: "string option"
  backgroundColor :: "string option"
  borderColor :: "string option"
  borderWidth :: "jsnum option"
  alignment :: "string option"
  opacity :: "jsnum option"

text \<open>
  The \<open>content\<close> payload has type \<open>any\<close>.  The code stores \<open>{text}\<close> for a text box,
  \<open>{shapeType, text}\<close> for a shape, \<open>{imageId, imagePath, altText}\<close> (later also
  \<open>imageDataUrl\<close> and \<open>resolved\<close>) for a decoded picture and \<open>{imageUrl, altText}\<close> for an
  added image; one record with optional fields covers them.
\<close>

record Content =
  c_text :: "string option"
  c_shapeType :: "string option"
  c_imageId :: "string option"
  c_imagePath :: "string option"
  c_altText :: "string option"
  c_imageDataUrl :: "string option"
  c_resolved :: bool
  c_imageUrl :: "string option"

definition empty_content :: Content where
  "empty_content = \<lparr>c_text = None, c_shapeType = None, c_imageId = None, c_imagePath = None,
     c_altText = None, c_imageDataUrl = None, c_resolved = False, c_imageUrl = None\<rparr>"

definition empty_style :: ElementStyle where
  "empty_style = \<lparr>fontSize = None, fontFamily = None, fontWeight = None, color = None,
     backgroundColor = None, borderColor = None, borderWidth = None, alignment = None,
     opacity = None\<rparr>"

text \<open>An element as a value: what the decoder builds before the editor holds it by reference.\<close>

record SlideElement =
  el_id :: string
  el_type :: element_type
  el_position :: Position
  el_size :: Size
  el_content :: Content
  el_style :: "ElementStyle option"
  el_originalData :: "jsval option"
  el_zIndex :: "int option"

datatype background_type = ColorBg | ImageBg | GradientBg

record SlideBackground =
  bg_type :: background_type
  bg_value :: string

text \<open>
  A slide owns its element array.  The array holds element values in the decoder and
  object references in the editor, so the slide is polymorphic in the entry type.
  \<open>imageDataResolved\<close> is the marker \<open>_imageDataResolved\<close> the decoder sets on the slide.
\<close>

record 'e PPTXSlide =
  s_id :: string
  slideNumber :: int
  elements :: "'e list"
  background :: "SlideBackground option"
  layout :: "string option"
  imageDataResolved :: bool

datatype jsdate = DateNow | DateOf string

record DocumentMetadata =
  title :: string
  author :: string
  subject :: string
  md_keywords :: "string list"
  created :: jsdate
  modified :: jsdate

record ThemeColors =
  primary :: string
  secondary :: string
  accent1 :: string
  accent2 :: string
  accent3 :: string
  accent4 :: string
  accent5 :: string
  accent6 :: string

record ThemeFonts =
  major :: string
  minor :: string

record PresentationTheme =
  colors :: ThemeColors
  fonts :: ThemeFonts

record 'e PPTXDocument =
  slides :: "'e PPTXSlide list"
  metadata :: DocumentMetadata
  theme :: "PresentationTheme option"

section \<open>The object store\<close>

text \<open>
  The editor shares objects: a change record keeps references to element objects, and the
  copy \<open>{ ...element }\<close> made before an update is shallow, so the copy and the live element
  point to the same \<open>content\<close>, \<open>position\<close> and \<open>size\<close> objects.  The store makes this
  explicit: every object lives at an address, an element object holds the addresses of its
  parts, and a slide's element array and the snapshots of a change record hold element
  addresses.  \<open>next_addr\<close> is the first address not yet handed out.
\<close>

type_synonym addr = nat

record ElementObj =
  o_id :: string
  o_type :: element_type
  o_position :: addr
  o_size :: addr
  o_content :: addr
  o_style :: "addr option"
  o_originalData :: "jsval option"
  o_zIndex :: "int option"

record store =
  elems :: "addr \<Rightarrow> ElementObj"
  positions :: "addr \<Rightarrow> Position"
  sizes :: "addr \<Rightarrow> Size"
  contents :: "addr \<Rightarrow> Content"
  styles :: "addr \<Rightarrow> ElementStyle"
  next_addr :: addr

definition new_elem :: "store \<Rightarrow> ElementObj \<Rightarrow> addr \<times> store" where
  "new_elem h obj = (next_addr h, h\<lparr>elems := (elems h)(next_addr h := obj), next_addr := Suc (next_addr h)\<rparr>)"

definition new_position :: "store \<Rightarrow> Position \<Rightarrow> addr \<times> store" where
  "new_position h p = (next_addr h, h\<lparr>positions := (positions h)(next_addr h := p), next_addr := Suc (next_addr h)\<rparr>)"

definition new_size :: "store \<Rightarrow> Size \<Rightarrow> addr \<times> store" where
  "new_size h s = (next_addr h, h\<lparr>sizes := (sizes h)(next_addr h := s), next_addr := Suc (next_addr h)\<rparr>)"

definition new_content :: "store \<Rightarrow> Content \<Rightarrow> addr \<times> store" where
  "new_content h c = (next_addr h, h\<lparr>contents := (contents h)(next_addr h := c), next_addr := Suc (next_addr h)\<rparr>)"

definition new_style :: "store \<Rightarrow> ElementStyle \<Rightarrow> addr \<times> store" where
  "new_style h s = (next_addr h, h\<lparr>styles := (styles h)(next_addr h := s), next_addr := Suc (next_addr h)\<rparr>)"

text \<open>Reading an element through the store gives back the element as a value.\<close>

definition element_value :: "store \<Rightarrow> addr \<Rightarrow> SlideElement" where
  "element_value h a =
     (let obj = elems h a
      in \<lparr>el_id = o_id obj, el_type = o_type obj, el_position = positions h (o_position obj),
          el_size = sizes h (o_size obj), el_content = contents h (o_content obj),
          el_style = map_option (styles h) (o_style obj),
          el_originalData = o_originalData obj, el_zIndex = o_zIndex obj\<rparr>)"

text \<open>Placing a decoded element in the store: one object per part, as the decoder built it.\<close>

definition store_element :: "store \<Rightarrow> SlideElement \<Rightarrow> addr \<times> store" where
  "store_element h e =
     (let (p, h1) = new_position h (el_position e);
          (s, h2) = new_size h1 (el_size e);
          (c, h3) = new_content h2 (el_content e);
          (st, h4) = (case el_style e of None \<Rightarrow> (None, h3)
                      | Some sty \<Rightarrow> (let (a, h') = new_style h3 sty in (Some a, h')))
      in new_elem h4 \<lparr>o_id = el_id e, o_type = el_type e, o_position = p, o_size = s,
           o_content = c, o_style = st, o_originalData = el_originalData e,
           o_zIndex = el_zIndex e\<rparr>)"

fun store_elements :: "store \<Rightarrow> SlideElement list \<Rightarrow> addr list \<times> store" where
  "store_elements h [] = ([], h)"
| "store_elements h (e # es) =
     (let (a, h1) = store_element h e; (as, h2) = store_elements h1 es in (a # as, h2))"

definition store_slide :: "store \<Rightarrow> SlideElement PPTXSlide \<Rightarrow> addr PPTXSlide \<times> store" where
  "store_slide h s =
     (let (as, h1) = store_elements h (elements s)
      in (\<lparr>s_id = s_id s, slideNumber = slideNumber s, elements = as,
           background = background s, layout = layout s,
           imageDataResolved = imageDataResolved s\<rparr>, h1))"

fun store_slides :: "store \<Rightarrow> SlideElement PPTXSlide list \<Rightarrow> addr PPTXSlide list \<times> store" where
  "store_slides h [] = ([], h)"
| "store_slides h (s # ss) =
     (let (s', h1) = store_slide h s; (ss', h2) = store_slides h1 ss in (s' # ss', h2))"

definition store_document :: "store \<Rightarrow> SlideElement PPTXDocument \<Rightarrow> addr PPTXDocument \<times> store" where
  "store_document h d =
     (let (ss, h1) = store_slides h (slides d)
      in (\<lparr>slides = ss, metadata = metadata d, theme = theme d\<rparr>, h1))"

definition empty_store :: store where
  "empty_store = \<lparr>elems = (\<lambda>_. \<lparr>o_id = [], o_type = TextT, o_position = 0, o_size = 0,
        o_content = 0, o_style = None, o_originalData = None, o_zIndex = None\<rparr>),
     positions = (\<lambda>_. \<lparr>pos_x = Num 0, pos_y = Num 0\<rparr>),
     sizes = (\<lambda>_. \<lparr>sz_width = Num 0, sz_height = Num 0\<rparr>),
     contents = (\<lambda>_. empty_content),
     styles = (\<lambda>_. empty_style),
     next_addr = 0\<rparr>"

section \<open>Applying and reverting a change (ChangeTracker.ts)\<close>

text \<open>
  \<open>Array.prototype.findIndex\<close> and \<open>find\<close>: the first position (entry) satisfying the test.
  \<open>splice(i, 1)\<close> removes the entry at position \<open>i\<close>.
\<close>

fun findIndex :: "('a \<Rightarrow> bool) \<Rightarrow> 'a list \<Rightarrow> nat option" where
  "findIndex P [] = None"
| "findIndex P (v # vs) = (if P v then Some 0 else map_option Suc (findIndex P vs))"

definition splice1 :: "'a list \<Rightarrow> nat \<Rightarrow> 'a list" where
  "splice1 vs i = take i vs @ drop (Suc i) vs"

text \<open>
  Both helpers look the slide up by id and change its element array in place; the
  model writes the changed slide back at the position where \<open>find\<close> found it.
\<close>

definition applyChange ::
  "store \<Rightarrow> addr PPTXDocument \<Rightarrow> addr ChangeRecord \<Rightarrow> addr PPTXDocument" where
  "applyChange h doc change =
     (case findIndex (\<lambda>s. s_id s = slideId change) (slides doc) of
        None \<Rightarrow> doc
      | Some si \<Rightarrow>
          (let slide = slides doc ! si;
               els = elements slide;
               els' =
                 (case ctype change of
                    Add \<Rightarrow> (case newState change of Some a \<Rightarrow> els @ [a] | None \<Rightarrow> els)
                  | Update \<Rightarrow>
                      (case (previousState change, newState change) of
                         (Some _, Some a) \<Rightarrow>
                           (case findIndex (\<lambda>e. o_id (elems h e) = elementId change) els of
                              Some i \<Rightarrow> els[i := a] | None \<Rightarrow> els)
                       | _ \<Rightarrow> els)
                  | Delete \<Rightarrow>
                      (case previousState change of
                         Some _ \<Rightarrow>
                           (case findIndex (\<lambda>e. o_id (elems h e) = elementId change) els of
                              Some i \<Rightarrow> splice1 els i | None \<Rightarrow> els)
                       | None \<Rightarrow> els))
           in doc\<lparr>slides := (slides doc)[si := slide\<lparr>elements := els'\<rparr>]\<rparr>))"

definition revertChange ::
  "store \<Rightarrow> addr PPTXDocument \<Rightarrow> addr ChangeRecord \<Rightarrow> addr PPTXDocument" where
  "revertChange h doc change =
     (case findIndex (\<lambda>s. s_id s = slideId change) (slides doc) of
        None \<Rightarrow> doc
      | Some si \<Rightarrow>
          (let slide = slides doc ! si;
               els = elements slide;
               els' =
                 (case ctype change of
                    Add \<Rightarrow>
                      (case findIndex (\<lambda>e. o_id (elems h e) = elementId change) els of
                         Some i \<Rightarrow> splice1 els i | None \<Rightarrow> els)
                  | Update \<Rightarrow>
                      (case previousState change of
                         Some p \<Rightarrow>
                           (case findIndex (\<lambda>e. o_id (elems h e) = elementId change) els of
                              Some i \<Rightarrow> els[i := p] | None \<Rightarrow> els)
                       | None \<Rightarrow> els)
                  | Delete \<Rightarrow>
                      (case previousState change of Some p \<Rightarrow> els @ [p] | None \<Rightarrow> els))
           in doc\<lparr>slides := (slides doc)[si := slide\<lparr>elements := els'\<rparr>]\<rparr>))"

section \<open>JavaScript string primitives\<close>

text \<open>
  Strings are lists of characters.  Isabelle characters are bytes, so the model covers
  text in the Latin-1 range; of the white space and line terminators of JavaScript it has
  those below 256.
\<close>

definition startsWith :: "string \<Rightarrow> string \<Rightarrow> bool" where
  "startsWith s p = (take (length p) s = p)"

fun js_includes :: "string \<Rightarrow> string \<Rightarrow> bool" where
  "js_includes [] sub = (sub = [])"
| "js_includes (c # cs) sub = (startsWith (c # cs) sub \<or> js_includes cs sub)"

text \<open>\<open>s.replace(pat, rep)\<close> for a string pattern and a replacement without \<open>$\<close>: the first
  occurrence only.\<close>

fun replace_str :: "string \<Rightarrow> string \<Rightarrow> string \<Rightarrow> string" where
  "replace_str pat rep [] = (if pat = [] then rep else [])"
| "replace_str pat rep (c # cs) =
     (if startsWith (c # cs) pat then rep @ drop (length pat) (c # cs)
      else c # replace_str pat rep cs)"

definition is_whitespace :: "char \<Rightarrow> bool" where
  "is_whitespace c = (c \<in> set [CHR 0x09, CHR 0x0A, CHR 0x0B, CHR 0x0C, CHR 0x0D, CHR 0x20, CHR 0xA0])"

definition trim :: "string \<Rightarrow> string" where
  "trim s = rev (dropWhile is_whitespace (rev (dropWhile is_whitespace s)))"

definition is_line_terminator :: "char \<Rightarrow> bool" where
  "is_line_terminator c = (c = CHR 0x0A \<or> c = CHR 0x0D)"

definition digit_char :: "nat \<Rightarrow> char" where
  "digit_char d = ''0123456789'' ! d"

fun digits :: "nat \<Rightarrow> string" where
  "digits n = (if n < 10 then [digit_char n] else digits (n div 10) @ [digit_char (n mod 10)])"

text \<open>An integer-valued number in a template literal.\<close>

definition int_to_string :: "int \<Rightarrow> string" where
  "int_to_string i = (if i < 0 then CHR ''-'' # digits (nat (- i)) else digits (nat i))"

text \<open>
  \<open>parseInt(s)\<close> without a radix: leading white space and a sign are skipped, a prefix
  \<open>0x\<close> selects base 16, and the longest run of digits is read; no digit gives \<open>NaN\<close>.
\<close>

definition digit_value :: "nat \<Rightarrow> char \<Rightarrow> nat option" where
  "digit_value radix c =
     (let k = of_char c :: nat;
          v = (if 48 \<le> k \<and> k \<le> 57 then Some (k - 48)
               else if 97 \<le> k \<and> k \<le> 122 then Some (k - 87)
               else if 65 \<le> k \<and> k \<le> 90 then Some (k - 55)
               else None)
      in case v of Some d \<Rightarrow> (if d < radix then Some d else None) | None \<Rightarrow> None)"

fun read_digits :: "nat \<Rightarrow> nat option \<Rightarrow> string \<Rightarrow> nat option" where
  "read_digits radix acc [] = acc"
| "read_digits radix acc (c # cs) =
     (case digit_value radix c of
        None \<Rightarrow> acc
      | Some d \<Rightarrow> read_digits radix (Some ((case acc of None \<Rightarrow> 0 | Some a \<Rightarrow> a) * radix + d)) cs)"

definition parseInt :: "string \<Rightarrow> int option" where
  "parseInt s =
     (let s1 = dropWhile is_whitespace s;
          neg = (s1 \<noteq> [] \<and> hd s1 = CHR ''-'');
          s2 = (if s1 \<noteq> [] \<and> (hd s1 = CHR ''-'' \<or> hd s1 = CHR ''+'') then tl s1 else s1);
          hex = (startsWith s2 ''0x'' \<or> startsWith s2 ''0X'');
          r = (if hex then read_digits 16 None (drop 2 s2) else read_digits 10 None s2)
      in map_option (\<lambda>n. if neg then - int n else int n) r)"

section \<open>XML parts as objects (PPTXParser.ts, \<open>xmlToObject\<close>)\<close>

text \<open>
  What the browser's \<open>DOMParser\<close> hands back: text nodes, elements with their tag name,
  attributes and child nodes in document order, and nodes of any other kind (comments,
  processing instructions, CDATA sections).
\<close>

datatype dom = DText string | DElem string "(string \<times> string) list" "dom list" | DOther

fun is_text_node :: "dom \<Rightarrow> bool" where
  "is_text_node (DText _) = True"
| "is_text_node _ = False"

fun is_element_node :: "dom \<Rightarrow> bool" where
  "is_element_node (DElem _ _ _) = True"
| "is_element_node _ = False"

fun textContent :: "dom \<Rightarrow> string" where
  "textContent (DText s) = s"
| "textContent _ = []"

fun tagName :: "dom \<Rightarrow> string" where
  "tagName (DElem t _ _) = t"
| "tagName _ = []"

text \<open>
  \<open>groupedElements[tagName].push(childObj)\<close>, creating the array at the first child with
  that tag: the keys stay in the order in which each tag first occurs, the children of one
  tag in document order among themselves.
\<close>

fun group_push :: "(string \<times> jsval list) list \<Rightarrow> string \<times> jsval \<Rightarrow> (string \<times> jsval list) list" where
  "group_push [] (t, v) = [(t, [v])]"
| "group_push ((k, vs) # g) (t, v) =
     (if k = t then (k, vs @ [v]) # g else (k, vs) # group_push g (t, v))"

text \<open>
  \<open>processNode\<close> returns \<open>null\<close> (here \<open>None\<close>) for a node that is neither text nor element.
  An element whose children are text nodes only becomes the string of its trimmed texts,
  attributes dropped; any other element becomes an object with its attributes under \<open>$\<close> and
  its element children grouped by tag name.  The conversion is a pure function, so the
  model converts every child and then keeps the converted element children.
\<close>

fun processNode :: "dom \<Rightarrow> jsval option" where
  "processNode (DText s) = Some (JStr (trim s))"
| "processNode DOther = None"
| "processNode (DElem tag attrs children) =
     (let textNodes = filter is_text_node children;
          elementNodes = filter is_element_node children
      in if textNodes \<noteq> [] \<and> elementNodes = []
         then Some (JStr (concat (map (\<lambda>n. trim (textContent n)) textNodes)))
         else Some (JObj (if attrs \<noteq> [] then Some attrs else None)
                 (foldl group_push []
                    (List.map_filter
                       (\<lambda>(child, childObj).
                          if is_element_node child
                          then map_option (\<lambda>obj. (tagName child, obj)) childObj
                          else None)
                       (zip children (map processNode children))))))"

text \<open>
  \<open>groupedElements\<close> starts as \<open>{}\<close>, so for a tag named like a property of
  \<open>Object.prototype\<close> the test \<open>!groupedElements[tagName]\<close> finds the inherited value and
  \<open>push\<close> throws a \<open>TypeError\<close>.  \<open>node_throws\<close> says whether that happens somewhere below a
  node.
\<close>

definition prototype_keys :: "string list" where
  "prototype_keys = [''constructor'', ''__defineGetter__'', ''__defineSetter__'',
     ''hasOwnProperty'', ''__lookupGetter__'', ''__lookupSetter__'', ''isPrototypeOf'',
     ''propertyIsEnumerable'', ''toString'', ''valueOf'', ''__proto__'', ''toLocaleString'']"

fun node_throws :: "dom \<Rightarrow> bool" where
  "node_throws (DText s) = False"
| "node_throws DOther = False"
| "node_throws (DElem tag attrs children) =
     (let textNodes = filter is_text_node children;
          elementNodes = filter is_element_node children
      in if textNodes \<noteq> [] \<and> elementNodes = [] then False
         else list_ex (\<lambda>child. is_element_node child
                  \<and> (node_throws child \<or> tagName child \<in> set prototype_keys)) children)"

text \<open>
  \<open>xmlToObject\<close> applied to the document element.  \<open>None\<close> stands for a thrown
  \<open>TypeError\<close>; every caller reads a property of the result inside a \<open>try\<close> block, so a
  \<open>null\<close> result ends in the same \<open>catch\<close>.
\<close>

definition xmlToObject :: "dom \<Rightarrow> jsval option" where
  "xmlToObject documentElement =
     (if node_throws documentElement then None else processNode documentElement)"

text \<open>Property access on a converted node: \<open>v[key]\<close>, \<open>v[key]?.[0]\<close>, \<open>v.$\<close>, \<open>v.$?.[name]\<close>.\<close>

definition js_prop :: "jsval \<Rightarrow> string \<Rightarrow> jsval list option" where
  "js_prop v key = (case v of JObj _ groups \<Rightarrow> map_of groups key | JStr _ \<Rightarrow> None)"

definition js_prop0 :: "jsval \<Rightarrow> string \<Rightarrow> jsval option" where
  "js_prop0 v key = (case js_prop v key of Some (a # _) \<Rightarrow> Some a | _ \<Rightarrow> None)"

definition attrs_of :: "jsval \<Rightarrow> (string \<times> string) list option" where
  "attrs_of v = (case v of JObj a _ \<Rightarrow> a | JStr _ \<Rightarrow> None)"

definition js_attr :: "jsval \<Rightarrow> string \<Rightarrow> string option" where
  "js_attr v name = (case attrs_of v of Some a \<Rightarrow> map_of a name | None \<Rightarrow> None)"

definition truthy :: "jsval \<Rightarrow> bool" where
  "truthy v = (v \<noteq> JStr [])"

definition truthy_opt :: "jsval option \<Rightarrow> bool" where
  "truthy_opt v = (case v of Some w \<Rightarrow> truthy w | None \<Rightarrow> False)"

text \<open>A string that is absent or empty is falsy.\<close>

definition nonempty :: "string option \<Rightarrow> string option" where
  "nonempty s = (case s of Some t \<Rightarrow> (if t = [] then None else Some t) | None \<Rightarrow> None)"

text \<open>
  The conversion to string that \<open>join\<close> applies to its entries: a string as it is, an
  object as \<open>[object Object]\<close>, an array as its entries joined by commas.
\<close>

definition js_to_string :: "jsval \<Rightarrow> string" where
  "js_to_string v = (case v of JStr s \<Rightarrow> s | JObj _ _ \<Rightarrow> ''[object Object]'')"

fun join :: "string \<Rightarrow> string list \<Rightarrow> string" where
  "join sep [] = []"
| "join sep [s] = s"
| "join sep (s # t # ts) = s @ sep @ join sep (t # ts)"

section \<open>The slide decoder (PPTXParser.ts)\<close>

text \<open>
  The decoder reads the container through JSZip and calls two primitives of the browser:
  \<open>DOMParser\<close> (\<open>parseXML\<close>) and \<open>btoa\<close>.  JSZip in turn decodes the bytes of a part as
  UTF-8 when the part is read with \<open>async('string')\<close>, and encodes a string as UTF-8 when a
  string is stored with \<open>zip.file(path, string)\<close>.  None of the four is part of the
  repository; the model takes them as the fields of a \<open>runtime\<close>.  Decoding followed by
  encoding gives a part back only when its bytes are well-formed UTF-8: a decoder replaces
  what is not.
\<close>

record runtime =
  parseXML :: "string \<Rightarrow> dom"
  btoa :: "string \<Rightarrow> string"
  utf8decode :: "string \<Rightarrow> string"
  utf8encode :: "string \<Rightarrow> string"

text \<open>
  A container is the JSZip object: a map from member path to entry, an entry being a
  directory or a file with its bytes (a list of 8-bit characters).  \<open>zip_file\<close> is
  \<open>zip.file(path)?.async('uint8array')\<close>, the bytes as they are.  \<open>zip_text\<close> is
  \<open>zip.file(path)?.async('string')\<close> together with the test \<open>if (!xml) return\<close> that follows
  every such read: the bytes are decoded, and a part whose text is empty counts as absent.
  \<open>zip_put_text\<close> is \<open>zip.file(path, string)\<close>: the part becomes the encoding of the string.
\<close>

datatype zip_entry = Dir | File string

type_synonym zip = "string \<Rightarrow> zip_entry option"

definition zip_file :: "zip \<Rightarrow> string \<Rightarrow> string option" where
  "zip_file z path = (case z path of Some (File bytes) \<Rightarrow> Some bytes | _ \<Rightarrow> None)"

definition zip_text :: "runtime \<Rightarrow> zip \<Rightarrow> string \<Rightarrow> string option" where
  "zip_text rt z path = nonempty (map_option (utf8decode rt) (zip_file z path))"


text \<open>
  Lengths are in EMU; a point is \<open>72 / 914400\<close> of one.  \<open>parseInt(v || '0')\<close> reads the
  attribute, an absent or empty attribute counting as \<open>0\<close>.
\<close>

definition emu_to_points :: "string option \<Rightarrow> jsnum" where
  "emu_to_points v =
     (case parseInt (case nonempty v of Some s \<Rightarrow> s | None \<Rightarrow> ''0'') of
        None \<Rightarrow> NaN
      | Some n \<Rightarrow> Num (of_int n * (72 / 914400)))"

definition opt_attr :: "jsval option \<Rightarrow> string \<Rightarrow> string option" where
  "opt_attr v name = (case v of Some w \<Rightarrow> js_attr w name | None \<Rightarrow> None)"

definition opt_prop0 :: "jsval option \<Rightarrow> string \<Rightarrow> jsval option" where
  "opt_prop0 v key = (case v of Some w \<Rightarrow> js_prop0 w key | None \<Rightarrow> None)"

definition parsePosition :: "jsval \<Rightarrow> Position" where
  "parsePosition spPr =
     (let xfrm = js_prop0 spPr ''a:xfrm'';
          off = opt_prop0 xfrm ''a:off''
      in \<lparr>pos_x = emu_to_points (opt_attr off ''x''), pos_y = emu_to_points (opt_attr off ''y'')\<rparr>)"

definition parseSize :: "jsval \<Rightarrow> Size" where
  "parseSize spPr =
     (let xfrm = js_prop0 spPr ''a:xfrm'';
          ext = opt_prop0 xfrm ''a:ext''
      in \<lparr>sz_width = emu_to_points (opt_attr ext ''cx''),
          sz_height = emu_to_points (opt_attr ext ''cy'')\<rparr>)"

text \<open>The text of one run: \<open>r['a:t']?.[0]\<close> by its type.\<close>

definition run_text :: "jsval \<Rightarrow> string" where
  "run_text r =
     (case js_prop0 r ''a:t'' of
        None \<Rightarrow> []
      | Some (JStr s) \<Rightarrow> s
      | Some (JObj a g) \<Rightarrow>
          (case map_of g ''_'' of
             Some arr \<Rightarrow> join '','' (map js_to_string arr)
           | None \<Rightarrow>
               (case a of
                  None \<Rightarrow> []
                | Some atts \<Rightarrow> (case nonempty (map_of atts ''val'') of Some v \<Rightarrow> v | None \<Rightarrow> []))))"

definition or_empty :: "'a list option \<Rightarrow> 'a list" where
  "or_empty v = (case v of Some vs \<Rightarrow> vs | None \<Rightarrow> [])"

definition parseTextContent :: "jsval \<Rightarrow> string" where
  "parseTextContent txBody =
     join [CHR 0x0A]
       (map (\<lambda>p. concat (map run_text (or_empty (js_prop p ''a:r''))))
            (or_empty (js_prop txBody ''a:p'')))"

text \<open>
  \<open>X?.[0]?.$.name\<close>: undefined when \<open>X?.[0]\<close> is, a \<open>TypeError\<close> when that node has no
  attributes (\<open>$\<close> is undefined and \<open>.name\<close> is read from it).  The outer \<open>None\<close> is the
  exception.
\<close>

definition strict_attr :: "jsval option \<Rightarrow> string \<Rightarrow> string option option" where
  "strict_attr v name =
     (case v of
        None \<Rightarrow> Some None
      | Some w \<Rightarrow> (case attrs_of w of None \<Rightarrow> None | Some a \<Rightarrow> Some (map_of a name)))"

text \<open>The fill colour \<open>solidFill['a:srgbClr']?.[0]?.$.val\<close> of a node, where the node is truthy.\<close>

definition fill_colour :: "jsval option \<Rightarrow> string option option" where
  "fill_colour solidFill =
     (if truthy_opt solidFill
      then (case strict_attr (opt_prop0 solidFill ''a:srgbClr'') ''val'' of
              None \<Rightarrow> None
            | Some v \<Rightarrow> Some (map_option (\<lambda>c. CHR ''#'' # c) (nonempty v)))
      else Some None)"

definition parseElementStyle :: "jsval \<Rightarrow> jsval option \<Rightarrow> ElementStyle option" where
  "parseElementStyle spPr txBody =
     (case (if js_prop spPr ''a:prstGeom'' \<noteq> None
            then fill_colour (js_prop0 spPr ''a:solidFill'') else Some None) of
        None \<Rightarrow> None
      | Some bg \<Rightarrow>
          (let style = empty_style\<lparr>backgroundColor := bg\<rparr>;
               rPr = (case (if truthy_opt txBody then or_empty (js_prop (the txBody) ''a:p'') else []) of
                        [] \<Rightarrow> None
                      | firstP # _ \<Rightarrow>
                          (case or_empty (js_prop firstP ''a:r'') of
                             [] \<Rightarrow> None
                           | firstRun # _ \<Rightarrow> js_prop0 firstRun ''a:rPr''))
           in if truthy_opt rPr
              then (let sz = nonempty (opt_attr (opt_prop0 rPr ''a:sz'') ''val'');
                        style1 = (case sz of
                                    None \<Rightarrow> style
                                  | Some s \<Rightarrow>
                                      style\<lparr>fontSize :=
                                        Some (case parseInt s of None \<Rightarrow> NaN
                                              | Some n \<Rightarrow> Num (of_int n / 100))\<rparr>)
                    in case fill_colour (opt_prop0 rPr ''a:solidFill'') of
                         None \<Rightarrow> None
                       | Some None \<Rightarrow> Some style1
                       | Some (Some c) \<Rightarrow> Some (style1\<lparr>color := Some c\<rparr>))
              else Some style))"

text \<open>
  The three extractors.  Each runs in a \<open>try\<close> block and returns \<open>null\<close> (\<open>None\<close>) when a
  required child is missing or an exception is thrown on the way.
\<close>

definition parseShapeElement :: "jsval \<Rightarrow> nat \<Rightarrow> SlideElement option" where
  "parseShapeElement shape index =
     (let spPr = js_prop0 shape ''p:spPr'';
          txBody = js_prop0 shape ''p:txBody''
      in if \<not> truthy_opt spPr then None
         else
           (let textContent = (if truthy_opt txBody then parseTextContent (the txBody) else [])
            in case strict_attr (js_prop0 (the spPr) ''a:prstGeom'') ''prst'' of
                 None \<Rightarrow> None
               | Some prst \<Rightarrow>
                   (case parseElementStyle (the spPr) txBody of
                      None \<Rightarrow> None
                    | Some style \<Rightarrow>
                        Some \<lparr>el_id = ''shape-'' @ int_to_string (int index), el_type = ShapeT,
                              el_position = parsePosition (the spPr),
                              el_size = parseSize (the spPr),
                              el_content = empty_content
                                \<lparr>c_shapeType := Some (case nonempty prst of Some s \<Rightarrow> s | None \<Rightarrow> ''rect''),
                                 c_text := Some textContent\<rparr>,
                              el_style = Some style,
                              el_originalData = Some shape,
                              el_zIndex = None\<rparr>)))"

definition parsePictureElement :: "jsval \<Rightarrow> nat \<Rightarrow> SlideElement option" where
  "parsePictureElement picture index =
     (let spPr = js_prop0 picture ''p:spPr'';
          blipFill = js_prop0 picture ''p:blipFill''
      in if \<not> truthy_opt spPr \<or> \<not> truthy_opt blipFill then None
         else
           (let blip = opt_prop0 blipFill ''a:blip'';
                imageId = (case nonempty (opt_attr blip ''r:embed'') of
                             Some i \<Rightarrow> Some i | None \<Rightarrow> opt_attr blip ''r:link'')
            in case strict_attr (opt_prop0 (js_prop0 picture ''p:nvPicPr'') ''p:cNvPr'') ''descr'' of
                 None \<Rightarrow> None
               | Some descr \<Rightarrow>
                   (case parseElementStyle (the spPr) None of
                      None \<Rightarrow> None
                    | Some style \<Rightarrow>
                        Some \<lparr>el_id = ''picture-'' @ int_to_string (int index), el_type = ImageT,
                              el_position = parsePosition (the spPr),
                              el_size = parseSize (the spPr),
                              el_content = empty_content
                                \<lparr>c_imageId := imageId, c_imagePath := Some [],
                                 c_altText := Some (case nonempty descr of Some s \<Rightarrow> s | None \<Rightarrow> [])\<rparr>,
                              el_style = Some style,
                              el_originalData = Some picture,
                              el_zIndex = None\<rparr>)))"

definition parseTextBoxElement :: "jsval \<Rightarrow> nat \<Rightarrow> SlideElement option" where
  "parseTextBoxElement textBox index =
     (let spPr = js_prop0 textBox ''p:spPr'';
          txBody = js_prop0 textBox ''p:txBody''
      in if \<not> truthy_opt spPr \<or> \<not> truthy_opt txBody then None
         else
           (case parseElementStyle (the spPr) txBody of
              None \<Rightarrow> None
            | Some style \<Rightarrow>
                Some \<lparr>el_id = ''textbox-'' @ int_to_string (int index), el_type = TextT,
                      el_position = parsePosition (the spPr),
                      el_size = parseSize (the spPr),
                      el_content = empty_content\<lparr>c_text := Some (parseTextContent (the txBody))\<rparr>,
                      el_style = Some style,
                      el_originalData = Some textBox,
                      el_zIndex = None\<rparr>))"

text \<open>
  The path rule of \<open>resolveImageData\<close>: the target of an image relationship is turned into a
  member path of the container.
\<close>

definition absoluteImagePath :: "string \<Rightarrow> string" where
  "absoluteImagePath targetPath =
     (if startsWith targetPath ''../'' then replace_str ''../'' ''ppt/'' targetPath
      else if startsWith targetPath ''./'' then replace_str ''./'' ''ppt/slides/'' targetPath
      else if \<not> startsWith targetPath ''ppt/'' then ''ppt/'' @ targetPath
      else targetPath)"

definition toLowerCase :: "string \<Rightarrow> string" where
  "toLowerCase s =
     map (\<lambda>c. if 65 \<le> (of_char c :: nat) \<and> (of_char c :: nat) \<le> 90
               then char_of ((of_char c :: nat) + 32) else c) s"

definition getMimeType :: "string \<Rightarrow> string" where
  "getMimeType filePath =
     (let extension = toLowerCase (rev (takeWhile (\<lambda>c. c \<noteq> CHR ''.'') (rev filePath)))
      in if extension = ''png'' then ''image/png''
         else if extension = ''jpg'' \<or> extension = ''jpeg'' then ''image/jpeg''
         else if extension = ''gif'' then ''image/gif''
         else if extension = ''bmp'' then ''image/bmp''
         else if extension = ''svg'' then ''image/svg+xml''
         else ''image/png'')"

text \<open>
  \<open>relationships.find(rel => rel.$.Id === imageId)\<close>.  The outer \<open>None\<close> is the \<open>TypeError\<close>
  thrown when the search reaches a relationship without attributes.
\<close>

fun find_relationship :: "jsval list \<Rightarrow> string \<Rightarrow> jsval option option" where
  "find_relationship [] imageId = Some None"
| "find_relationship (rel # rels) imageId =
     (case attrs_of rel of
        None \<Rightarrow> None
      | Some a \<Rightarrow> if map_of a ''Id'' = Some imageId then Some (Some rel)
                  else find_relationship rels imageId)"

text \<open>
  One pass of the loop over the image elements.  The result is \<open>None\<close> when the pass throws
  (the \<open>catch\<close> around the whole loop then ends it), and otherwise the element, changed or not.
\<close>

definition resolve_image :: "runtime \<Rightarrow> zip \<Rightarrow> jsval list \<Rightarrow> SlideElement \<Rightarrow> SlideElement option" where
  "resolve_image rt z relationships imageElement =
     (case nonempty (c_imageId (el_content imageElement)) of
        None \<Rightarrow> Some imageElement
      | Some imageId \<Rightarrow>
          if c_resolved (el_content imageElement) then Some imageElement
          else
            (case find_relationship relationships imageId of
               None \<Rightarrow> None
             | Some None \<Rightarrow> Some imageElement
             | Some (Some relationship) \<Rightarrow>
                 (case js_attr relationship ''Target'' of
                    None \<Rightarrow> None
                  | Some targetPath \<Rightarrow>
                      (case zip_file z (absoluteImagePath targetPath) of
                         None \<Rightarrow> Some imageElement
                       | Some imageFile \<Rightarrow>
                           Some (imageElement\<lparr>el_content := (el_content imageElement)
                             \<lparr>c_imageDataUrl :=
                                Some (''data:'' @ getMimeType targetPath @ '';base64,''
                                      @ btoa rt imageFile),
                              c_imagePath := Some (absoluteImagePath targetPath),
                              c_resolved := True\<rparr>\<rparr>)))))"

fun resolve_images :: "runtime \<Rightarrow> zip \<Rightarrow> jsval list \<Rightarrow> SlideElement list \<Rightarrow> SlideElement list" where
  "resolve_images rt z relationships [] = []"
| "resolve_images rt z relationships (e # es) =
     (if el_type e \<noteq> ImageT then e # resolve_images rt z relationships es
      else case resolve_image rt z relationships e of
             None \<Rightarrow> e # es
           | Some e' \<Rightarrow> e' # resolve_images rt z relationships es)"

definition resolveImageData ::
  "runtime \<Rightarrow> zip \<Rightarrow> SlideElement PPTXSlide \<Rightarrow> string \<Rightarrow> SlideElement PPTXSlide" where
  "resolveImageData rt z slide slideRelPath =
     (if imageDataResolved slide then slide
      else
        (let slide1 = slide\<lparr>imageDataResolved := True\<rparr>
         in case zip_text rt z slideRelPath of
              None \<Rightarrow> slide1
            | Some relsXml \<Rightarrow>
                (case xmlToObject (parseXML rt relsXml) of
                   None \<Rightarrow> slide1
                 | Some relsResult \<Rightarrow>
                     (let relationships =
                            (case opt_prop0 (Some relsResult) ''Relationships'' of
                               Some r0 \<Rightarrow>
                                 (case js_prop r0 ''Relationship'' of
                                    Some rs \<Rightarrow> rs
                                  | None \<Rightarrow> or_empty (js_prop relsResult ''Relationship''))
                             | None \<Rightarrow> or_empty (js_prop relsResult ''Relationship''))
                      in slide1\<lparr>elements := resolve_images rt z relationships (elements slide1)\<rparr>))))"

text \<open>
  The loop of \<open>parseSlide\<close> over the shape tree.  \<open>allChildNodes\<close> are the keys of the
  converted shape tree that start with \<open>p:\<close>, in key order; for each key the nodes of that
  tag are decoded one after the other.  \<open>globalIndex\<close> counts the elements decoded so far and
  is the z-index of the next one.
\<close>

definition parse_node :: "string \<Rightarrow> jsval \<Rightarrow> nat \<Rightarrow> SlideElement option" where
  "parse_node nodeType node globalIndex =
     (if nodeType = ''p:sp'' then parseShapeElement node globalIndex
      else if nodeType = ''p:pic'' then parsePictureElement node globalIndex
      else if nodeType = ''p:txBox'' then parseTextBoxElement node globalIndex
      else None)"

fun parse_nodes ::
  "string \<Rightarrow> jsval list \<Rightarrow> (SlideElement \<times> nat) list \<times> nat \<Rightarrow> (SlideElement \<times> nat) list \<times> nat" where
  "parse_nodes nodeType [] acc = acc"
| "parse_nodes nodeType (node # nodes) (allElements, globalIndex) =
     (case parse_node nodeType node globalIndex of
        None \<Rightarrow> parse_nodes nodeType nodes (allElements, globalIndex)
      | Some element \<Rightarrow>
          parse_nodes nodeType nodes
            (allElements @ [(element\<lparr>el_zIndex := Some (int globalIndex)\<rparr>, globalIndex)],
             Suc globalIndex))"

fun parse_node_types ::
  "(string \<times> jsval list) list \<Rightarrow> (SlideElement \<times> nat) list \<times> nat \<Rightarrow> (SlideElement \<times> nat) list \<times> nat" where
  "parse_node_types [] acc = acc"
| "parse_node_types ((nodeType, nodes) # rest) acc =
     parse_node_types rest (parse_nodes nodeType nodes acc)"

definition spTree_elements :: "jsval \<Rightarrow> SlideElement list" where
  "spTree_elements spTree =
     (let allChildNodes =
            (case spTree of
               JObj _ groups \<Rightarrow> filter (\<lambda>(key, nodes). startsWith key ''p:'' \<and> nodes \<noteq> []) groups
             | JStr _ \<Rightarrow> []);
          allElements = fst (parse_node_types allChildNodes ([], 0))
      in map fst (sort_key snd allElements))"

definition parseSlide :: "runtime \<Rightarrow> zip \<Rightarrow> string \<Rightarrow> int \<Rightarrow> SlideElement PPTXSlide option" where
  "parseSlide rt z slidePath slideNum =
     (case zip_text rt z slidePath of
        None \<Rightarrow> None
      | Some slideXml \<Rightarrow>
          (let slide = \<lparr>s_id = ''slide-'' @ int_to_string slideNum, slideNumber = slideNum,
                        elements = [], background = None, layout = Some ''default'',
                        imageDataResolved = False\<rparr>
           in case xmlToObject (parseXML rt slideXml) of
                None \<Rightarrow> None
              | Some result \<Rightarrow>
                  (case js_prop0 result ''p:cSld'' of
                     None \<Rightarrow> None
                   | Some slideData \<Rightarrow>
                       if \<not> truthy slideData then None
                       else
                         (let slide1 =
                                (case nonempty (opt_attr (js_prop0 slideData ''p:sldLayoutId'') ''id'') of
                                   Some l \<Rightarrow> slide\<lparr>layout := Some l\<rparr>
                                 | None \<Rightarrow> slide);
                              spTree = js_prop0 slideData ''p:spTree''
                          in if \<not> truthy_opt spTree then Some slide1
                             else
                               (let slide2 = slide1\<lparr>elements := spTree_elements (the spTree)\<rparr>;
                                    slideRelPath =
                                      replace_str ''.xml'' ''.xml.rels''
                                        (replace_str ''ppt/slides/'' ''ppt/slides/_rels/'' slidePath);
                                    altPath = replace_str ''.xml'' ''.xml.rels'' slidePath
                                in if zip_text rt z slideRelPath \<noteq> None
                                   then Some (resolveImageData rt z slide2 slideRelPath)
                                   else if zip_text rt z altPath \<noteq> None
                                   then Some (resolveImageData rt z slide2 altPath)
                                   else Some slide2)))))"

text \<open>
  \<open>parseSlides\<close>: the relationships of the presentation whose target names a slide, in the
  order of the relationship part; the \<open>i\<close>-th of them is decoded as slide number \<open>i + 1\<close>.
  A relationship without attributes makes the filter throw, and no slide is decoded.
\<close>

definition is_slide_rel :: "jsval \<Rightarrow> bool" where
  "is_slide_rel rel =
     (case js_attr rel ''Target'' of
        None \<Rightarrow> False
      | Some t \<Rightarrow> js_includes t ''slide'' \<and> \<not> js_includes t ''slideMaster''
                  \<and> \<not> js_includes t ''slideLayout'')"

fun parse_slide_rels ::
  "runtime \<Rightarrow> zip \<Rightarrow> jsval list \<Rightarrow> nat \<Rightarrow> SlideElement PPTXSlide list \<Rightarrow> SlideElement PPTXSlide list" where
  "parse_slide_rels rt z [] i acc = acc"
| "parse_slide_rels rt z (slideRel # rels) i acc =
     (case parseSlide rt z (''ppt/'' @ the (js_attr slideRel ''Target'')) (int i + 1) of
        None \<Rightarrow> parse_slide_rels rt z rels (Suc i) acc
      | Some slide \<Rightarrow> parse_slide_rels rt z rels (Suc i) (acc @ [slide]))"

definition parseSlides :: "runtime \<Rightarrow> zip \<Rightarrow> SlideElement PPTXDocument \<Rightarrow> SlideElement PPTXDocument" where
  "parseSlides rt z doc =
     (case zip_text rt z ''ppt/_rels/presentation.xml.rels'' of
        None \<Rightarrow> doc
      | Some relsXml \<Rightarrow>
          (case xmlToObject (parseXML rt relsXml) of
             None \<Rightarrow> doc
           | Some result \<Rightarrow>
               (let relationships = or_empty (js_prop result ''Relationship'')
                in if list_ex (\<lambda>rel. attrs_of rel = None) relationships then doc
                   else doc\<lparr>slides :=
                          parse_slide_rels rt z (filter is_slide_rel relationships) 0 (slides doc)\<rparr>)))"

text \<open>
  The document properties.  \<open>result.Properties\<close> is the array of the children tagged
  \<open>Properties\<close>; the code reads \<open>Title\<close>, \<open>Subject\<close> and \<open>Keywords\<close> as properties of that
  array, which are undefined, so the fall-back values are stored.  The same holds for the
  core properties and for the colour scheme of the theme.
\<close>

definition parsePresentationProperties ::
  "runtime \<Rightarrow> zip \<Rightarrow> SlideElement PPTXDocument \<Rightarrow> SlideElement PPTXDocument" where
  "parsePresentationProperties rt z doc =
     (let doc1 =
            (case zip_text rt z ''docProps/app.xml'' of
               None \<Rightarrow> doc
             | Some appXml \<Rightarrow>
                 (case xmlToObject (parseXML rt appXml) of
                    None \<Rightarrow> doc
                  | Some result \<Rightarrow>
                      if js_prop result ''Properties'' \<noteq> None
                      then doc\<lparr>metadata := (metadata doc)\<lparr>title := [], subject := [],
                                                            md_keywords := []\<rparr>\<rparr>
                      else doc))
      in case zip_text rt z ''docProps/core.xml'' of
           None \<Rightarrow> doc1
         | Some coreXml \<Rightarrow>
             (case xmlToObject (parseXML rt coreXml) of
                None \<Rightarrow> doc1
              | Some result \<Rightarrow>
                  if js_prop result ''cp:coreProperties'' \<noteq> None
                  then doc1\<lparr>metadata := (metadata doc1)\<lparr>author := [], created := DateNow,
                                                          modified := DateNow\<rparr>\<rparr>
                  else doc1))"

definition default_theme :: PresentationTheme where
  "default_theme =
     \<lparr>colors = \<lparr>primary = ''#000000'', secondary = ''#000000'', accent1 = ''#000000'',
                 accent2 = ''#000000'', accent3 = ''#000000'', accent4 = ''#000000'',
                 accent5 = ''#000000'', accent6 = ''#000000''\<rparr>,
      fonts = \<lparr>major = ''Calibri'', minor = ''Calibri''\<rparr>\<rparr>"

definition parseTheme :: "runtime \<Rightarrow> zip \<Rightarrow> SlideElement PPTXDocument \<Rightarrow> SlideElement PPTXDocument" where
  "parseTheme rt z doc =
     (case zip_text rt z ''ppt/theme/theme1.xml'' of
        None \<Rightarrow> doc
      | Some themeXml \<Rightarrow>
          (case xmlToObject (parseXML rt themeXml) of
             None \<Rightarrow> doc
           | Some result \<Rightarrow>
               if js_prop result ''a:theme'' \<noteq> None then doc\<lparr>theme := Some default_theme\<rparr>
               else doc))"

text \<open>The document a new parser starts with, and \<open>parsePPTX\<close> on a container already read.\<close>

definition new_parser_document :: "SlideElement PPTXDocument" where
  "new_parser_document =
     \<lparr>slides = [],
      metadata = \<lparr>title = [], author = [], subject = [], md_keywords = [],
                   created = DateNow, modified = DateNow\<rparr>,
      theme = None\<rparr>"

definition parsePPTX :: "runtime \<Rightarrow> zip \<Rightarrow> SlideElement PPTXDocument \<Rightarrow> SlideElement PPTXDocument" where
  "parsePPTX rt z doc = parseTheme rt z (parseSlides rt z (parsePresentationProperties rt z doc))"

section \<open>The editor (PPTXEditor.ts)\<close>

record EditorState =
  currentSlide :: int
  selectedElement :: "string option"
  st_changes :: "addr ChangeRecord list"
  st_canUndo :: bool
  st_canRedo :: bool

datatype ui_theme = Light | Dark

text \<open>Editor options as the caller passes them: every field may be absent.\<close>

record EditorOptions =
  enableUndoRedo :: "bool option"
  enableAutoSave :: "bool option"
  opt_maxUndoSteps :: "int option"
  opt_theme :: "ui_theme option"
  showToolbar :: "bool option"
  showSlideNavigator :: "bool option"

definition no_options :: EditorOptions where
  "no_options = \<lparr>enableUndoRedo = None, enableAutoSave = None, opt_maxUndoSteps = None,
     opt_theme = None, showToolbar = None, showSlideNavigator = None\<rparr>"

definition or_default :: "'a option \<Rightarrow> 'a \<Rightarrow> 'a option" where
  "or_default given dflt = (case given of Some v \<Rightarrow> Some v | None \<Rightarrow> Some dflt)"

record PPTXEditor =
  changeTracker :: "addr ChangeTracker"
  document :: "addr PPTXDocument option"
  originalZip :: "zip option"
  has_exporter :: bool
  state :: EditorState
  options :: EditorOptions
  heap :: store

text \<open>
  The constructor: \<open>new ChangeTracker(options.maxUndoSteps || 50)\<close>, the defaults
  overridden by the options given, and the initial state.
\<close>

definition new_PPTXEditor :: "EditorOptions \<Rightarrow> PPTXEditor" where
  "new_PPTXEditor opts =
     \<lparr>changeTracker =
        new_ChangeTracker (case opt_maxUndoSteps opts of
                             None \<Rightarrow> 50 | Some m \<Rightarrow> if m = 0 then 50 else m),
      document = None,
      originalZip = None,
      has_exporter = False,
      state = \<lparr>currentSlide = 0, selectedElement = None, st_changes = [],
                st_canUndo = False, st_canRedo = False\<rparr>,
      options = \<lparr>enableUndoRedo = or_default (enableUndoRedo opts) True,
                  enableAutoSave = or_default (enableAutoSave opts) False,
                  opt_maxUndoSteps = or_default (opt_maxUndoSteps opts) 50,
                  opt_theme = or_default (opt_theme opts) Light,
                  showToolbar = or_default (showToolbar opts) True,
                  showSlideNavigator = or_default (showSlideNavigator opts) True\<rparr>,
      heap = empty_store\<rparr>"

definition updateState :: "PPTXEditor \<Rightarrow> PPTXEditor" where
  "updateState ed =
     ed\<lparr>state := (state ed)\<lparr>st_changes := getChangeHistory (changeTracker ed),
                             st_canUndo := canUndo (changeTracker ed),
                             st_canRedo := canRedo (changeTracker ed)\<rparr>\<rparr>"

text \<open>
  \<open>loadPPTX\<close> after the container has been read and decoded: \<open>z\<close> is the JSZip object and
  \<open>parsed\<close> the document the parser returned (a failure of either makes the method throw
  before it touches the editor).  The decoded elements become objects of the store.
\<close>

definition loadPPTX :: "PPTXEditor \<Rightarrow> zip \<Rightarrow> SlideElement PPTXDocument \<Rightarrow> PPTXEditor" where
  "loadPPTX ed z parsed =
     (let (doc, h) = store_document (heap ed) parsed
      in updateState (ed\<lparr>originalZip := Some z, document := Some doc, has_exporter := True,
                          heap := h, changeTracker := clearHistory (changeTracker ed)\<rparr>))"

definition getDocument :: "PPTXEditor \<Rightarrow> addr PPTXDocument option" where
  "getDocument ed = document ed"

definition goToSlide :: "PPTXEditor \<Rightarrow> int \<Rightarrow> PPTXEditor" where
  "goToSlide ed n =
     (case document ed of
        None \<Rightarrow> ed
      | Some doc \<Rightarrow>
          if n \<ge> 0 \<and> n < int (length (slides doc))
          then updateState (ed\<lparr>state := (state ed)\<lparr>currentSlide := n, selectedElement := None\<rparr>\<rparr>)
          else ed)"

definition getCurrentSlide :: "PPTXEditor \<Rightarrow> addr PPTXSlide option" where
  "getCurrentSlide ed =
     (case document ed of
        None \<Rightarrow> None
      | Some doc \<Rightarrow> js_index (slides doc) (currentSlide (state ed)))"

definition getSlides :: "PPTXEditor \<Rightarrow> addr PPTXSlide list" where
  "getSlides ed = (case document ed of None \<Rightarrow> [] | Some doc \<Rightarrow> slides doc)"

definition selectElement :: "PPTXEditor \<Rightarrow> string \<Rightarrow> PPTXEditor" where
  "selectElement ed eId = updateState (ed\<lparr>state := (state ed)\<lparr>selectedElement := Some eId\<rparr>\<rparr>)"

definition deselectElement :: "PPTXEditor \<Rightarrow> PPTXEditor" where
  "deselectElement ed = updateState (ed\<lparr>state := (state ed)\<lparr>selectedElement := None\<rparr>\<rparr>)"

text \<open>
  The private \<open>recordChange\<close> of the editor.  \<open>newId\<close> and \<open>now\<close> are the change id and the
  timestamp the tracker draws from the random number generator and the clock.
\<close>

definition editor_recordChange ::
  "PPTXEditor \<Rightarrow> string \<Rightarrow> nat \<Rightarrow> change_type \<Rightarrow> string \<Rightarrow> string \<Rightarrow>
   addr option \<Rightarrow> addr option \<Rightarrow> string \<Rightarrow> PPTXEditor" where
  "editor_recordChange ed newId now ty eId sId prev new descr =
     (if enableUndoRedo (options ed) \<noteq> Some True then ed
      else updateState
             (ed\<lparr>changeTracker :=
                   recordChange (changeTracker ed) newId now ty eId sId prev new descr\<rparr>))"

text \<open>\<open>{ ...element }\<close>: a new element object with the same field values, parts included.\<close>

definition shallow_copy :: "store \<Rightarrow> addr \<Rightarrow> addr \<times> store" where
  "shallow_copy h a = new_elem h (elems h a)"

definition find_element :: "store \<Rightarrow> addr list \<Rightarrow> string \<Rightarrow> addr option" where
  "find_element h els eId = List.find (\<lambda>e. o_id (elems h e) = eId) els"

definition updateText :: "PPTXEditor \<Rightarrow> string \<Rightarrow> nat \<Rightarrow> string \<Rightarrow> string \<Rightarrow> PPTXEditor" where
  "updateText ed newId now eId newText =
     (case document ed of
        None \<Rightarrow> ed
      | Some doc \<Rightarrow>
          (case getCurrentSlide ed of
             None \<Rightarrow> ed
           | Some slide \<Rightarrow>
               (case find_element (heap ed) (elements slide) eId of
                  None \<Rightarrow> ed
                | Some element \<Rightarrow>
                    if o_type (elems (heap ed) element) \<noteq> TextT then ed
                    else
                      (let (previousState, h1) = shallow_copy (heap ed) element;
                           c = o_content (elems h1 element);
                           h2 = h1\<lparr>contents := (contents h1)(c := (contents h1 c)\<lparr>c_text := Some newText\<rparr>)\<rparr>
                       in editor_recordChange (ed\<lparr>heap := h2\<rparr>) newId now Update eId (s_id slide)
                            (Some previousState) (Some element)
                            (''Updated text: \"'' @ newText @ ''\"'')))))"

text \<open>
  The two geometry updates put the numbers into the description with a template
  literal; \<open>numToString\<close> is the runtime's conversion of a number to a string.
\<close>

definition updateElementPosition ::
  "(jsnum \<Rightarrow> string) \<Rightarrow> PPTXEditor \<Rightarrow> string \<Rightarrow> nat \<Rightarrow> string \<Rightarrow> jsnum \<Rightarrow> jsnum \<Rightarrow> PPTXEditor" where
  "updateElementPosition numToString ed newId now eId px py =
     (case document ed of
        None \<Rightarrow> ed
      | Some doc \<Rightarrow>
          (case getCurrentSlide ed of
             None \<Rightarrow> ed
           | Some slide \<Rightarrow>
               (case find_element (heap ed) (elements slide) eId of
                  None \<Rightarrow> ed
                | Some element \<Rightarrow>
                    (let (previousState, h1) = shallow_copy (heap ed) element;
                         p = o_position (elems h1 element);
                         h2 = h1\<lparr>positions := (positions h1)(p := (positions h1 p)\<lparr>pos_x := px, pos_y := py\<rparr>)\<rparr>
                     in editor_recordChange (ed\<lparr>heap := h2\<rparr>) newId now Update eId (s_id slide)
                          (Some previousState) (Some element)
                          (''Moved element to ('' @ numToString px @ '', '' @ numToString py @ '')'')))))"

definition updateElementSize ::
  "(jsnum \<Rightarrow> string) \<Rightarrow> PPTXEditor \<Rightarrow> string \<Rightarrow> nat \<Rightarrow> string \<Rightarrow> jsnum \<Rightarrow> jsnum \<Rightarrow> PPTXEditor" where
  "updateElementSize numToString ed newId now eId w hgt =
     (case document ed of
        None \<Rightarrow> ed
      | Some doc \<Rightarrow>
          (case getCurrentSlide ed of
             None \<Rightarrow> ed
           | Some slide \<Rightarrow>
               (case find_element (heap ed) (elements slide) eId of
                  None \<Rightarrow> ed
                | Some element \<Rightarrow>
                    (let (previousState, h1) = shallow_copy (heap ed) element;
                         s = o_size (elems h1 element);
                         h2 = h1\<lparr>sizes := (sizes h1)(s := (sizes h1 s)\<lparr>sz_width := w, sz_height := hgt\<rparr>)\<rparr>
                     in editor_recordChange (ed\<lparr>heap := h2\<rparr>) newId now Update eId (s_id slide)
                          (Some previousState) (Some element)
                          (''Resized element to '' @ numToString w @ ''x'' @ numToString hgt)))))"

text \<open>\<open>{ ...element.style, ...style }\<close>: a field of the partial style, where present, wins.\<close>

definition merge_field :: "'a option \<Rightarrow> 'a option \<Rightarrow> 'a option" where
  "merge_field old new = (case new of Some v \<Rightarrow> Some v | None \<Rightarrow> old)"

definition merge_style :: "ElementStyle \<Rightarrow> ElementStyle \<Rightarrow> ElementStyle" where
  "merge_style old new =
     \<lparr>fontSize = merge_field (fontSize old) (fontSize new),
      fontFamily = merge_field (fontFamily old) (fontFamily new),
      fontWeight = merge_field (fontWeight old) (fontWeight new),
      color = merge_field (color old) (color new),
      backgroundColor = merge_field (backgroundColor old) (backgroundColor new),
      borderColor = merge_field (borderColor old) (borderColor new),
      borderWidth = merge_field (borderWidth old) (borderWidth new),
      alignment = merge_field (alignment old) (alignment new),
      opacity = merge_field (opacity old) (opacity new)\<rparr>"

definition updateElementStyle ::
  "PPTXEditor \<Rightarrow> string \<Rightarrow> nat \<Rightarrow> string \<Rightarrow> ElementStyle \<Rightarrow> PPTXEditor" where
  "updateElementStyle ed newId now eId sty =
     (case document ed of
        None \<Rightarrow> ed
      | Some doc \<Rightarrow>
          (case getCurrentSlide ed of
             None \<Rightarrow> ed
           | Some slide \<Rightarrow>
               (case find_element (heap ed) (elements slide) eId of
                  None \<Rightarrow> ed
                | Some element \<Rightarrow>
                    (let (previousState, h1) = shallow_copy (heap ed) element;
                         old = (case o_style (elems h1 element) of
                                  None \<Rightarrow> empty_style | Some a \<Rightarrow> styles h1 a);
                         (a', h2) = new_style h1 (merge_style old sty);
                         h3 = h2\<lparr>elems := (elems h2)(element := (elems h2 element)\<lparr>o_style := Some a'\<rparr>)\<rparr>
                     in editor_recordChange (ed\<lparr>heap := h3\<rparr>) newId now Update eId (s_id slide)
                          (Some previousState) (Some element) ''Updated element style''))))"

text \<open>
  Writing a changed element array back to the current slide.  The code mutates the array
  of the slide object it got from \<open>getCurrentSlide\<close>, which is the entry of
  \<open>document.slides\<close> at the index \<open>currentSlide\<close>.
\<close>

definition set_current_elements :: "PPTXEditor \<Rightarrow> addr list \<Rightarrow> PPTXEditor" where
  "set_current_elements ed els =
     (case document ed of
        None \<Rightarrow> ed
      | Some doc \<Rightarrow>
          (let i = nat (currentSlide (state ed))
           in ed\<lparr>document := Some (doc\<lparr>slides := (slides doc)[i := (slides doc ! i)\<lparr>elements := els\<rparr>]\<rparr>)\<rparr>))"

text \<open>
  The two \<open>add\<close> methods.  \<open>elemId\<close> is the id the method builds from the clock and the
  random number generator.  Both throw when no document is loaded or no slide is current.
\<close>

definition addTextElement ::
  "PPTXEditor \<Rightarrow> string \<Rightarrow> string \<Rightarrow> nat \<Rightarrow> string \<Rightarrow> jsnum \<Rightarrow> jsnum \<Rightarrow> jsnum \<Rightarrow> jsnum \<Rightarrow>
   error + (string \<times> PPTXEditor)" where
  "addTextElement ed elemId newId now txt px py w hgt =
     (case document ed of
        None \<Rightarrow> Inl (Error ''No document loaded'')
      | Some doc \<Rightarrow>
          (case getCurrentSlide ed of
             None \<Rightarrow> Inl (Error ''No current slide'')
           | Some slide \<Rightarrow>
               (let (newElement, h1) =
                      store_element (heap ed)
                        \<lparr>el_id = elemId, el_type = TextT,
                         el_position = \<lparr>pos_x = px, pos_y = py\<rparr>,
                         el_size = \<lparr>sz_width = w, sz_height = hgt\<rparr>,
                         el_content = empty_content\<lparr>c_text := Some txt\<rparr>,
                         el_style = Some (empty_style\<lparr>fontSize := Some (Num 14),
                                            fontFamily := Some ''Arial'',
                                            color := Some ''#000000''\<rparr>),
                         el_originalData = None, el_zIndex = None\<rparr>;
                    ed1 = set_current_elements (ed\<lparr>heap := h1\<rparr>) (elements slide @ [newElement])
                in Inr (elemId,
                        editor_recordChange ed1 newId now Add elemId (s_id slide) None
                          (Some newElement) (''Added text: \"'' @ txt @ ''\"'')))))"

definition addImageElement ::
  "PPTXEditor \<Rightarrow> string \<Rightarrow> string \<Rightarrow> nat \<Rightarrow> string \<Rightarrow> jsnum \<Rightarrow> jsnum \<Rightarrow> jsnum \<Rightarrow> jsnum \<Rightarrow>
   error + (string \<times> PPTXEditor)" where
  "addImageElement ed elemId newId now imageUrl px py w hgt =
     (case document ed of
        None \<Rightarrow> Inl (Error ''No document loaded'')
      | Some doc \<Rightarrow>
          (case getCurrentSlide ed of
             None \<Rightarrow> Inl (Error ''No current slide'')
           | Some slide \<Rightarrow>
               (let (newElement, h1) =
                      store_element (heap ed)
                        \<lparr>el_id = elemId, el_type = ImageT,
                         el_position = \<lparr>pos_x = px, pos_y = py\<rparr>,
                         el_size = \<lparr>sz_width = w, sz_height = hgt\<rparr>,
                         el_content = empty_content\<lparr>c_imageUrl := Some imageUrl,
                                                    c_altText := Some ''Added image''\<rparr>,
                         el_style = Some empty_style,
                         el_originalData = None, el_zIndex = None\<rparr>;
                    ed1 = set_current_elements (ed\<lparr>heap := h1\<rparr>) (elements slide @ [newElement])
                in Inr (elemId,
                        editor_recordChange ed1 newId now Add elemId (s_id slide) None
                          (Some newElement) ''Added image''))))"

definition type_name :: "element_type \<Rightarrow> string" where
  "type_name ty = (case ty of TextT \<Rightarrow> ''text'' | ImageT \<Rightarrow> ''image'' | ShapeT \<Rightarrow> ''shape''
                   | ChartT \<Rightarrow> ''chart'' | TableT \<Rightarrow> ''table'')"

definition deleteElement :: "PPTXEditor \<Rightarrow> string \<Rightarrow> nat \<Rightarrow> string \<Rightarrow> PPTXEditor" where
  "deleteElement ed newId now eId =
     (case document ed of
        None \<Rightarrow> ed
      | Some doc \<Rightarrow>
          (case getCurrentSlide ed of
             None \<Rightarrow> ed
           | Some slide \<Rightarrow>
               (case findIndex (\<lambda>e. o_id (elems (heap ed) e) = eId) (elements slide) of
                  None \<Rightarrow> ed
                | Some elementIndex \<Rightarrow>
                    (let deletedElement = elements slide ! elementIndex;
                         ed1 = set_current_elements ed (splice1 (elements slide) elementIndex);
                         ed2 = editor_recordChange ed1 newId now Delete eId (s_id slide)
                                 (Some deletedElement) None
                                 (''Deleted '' @ type_name (o_type (elems (heap ed) deletedElement))
                                   @ '' element'')
                     in if selectedElement (state ed2) = Some eId then deselectElement ed2
                        else ed2))))"

definition editor_undo :: "PPTXEditor \<Rightarrow> bool \<times> PPTXEditor" where
  "editor_undo ed =
     (if enableUndoRedo (options ed) \<noteq> Some True then (False, ed)
      else
        (let (change, t) = undo (changeTracker ed);
             ed1 = ed\<lparr>changeTracker := t\<rparr>
         in case change of
              None \<Rightarrow> (False, ed1)
            | Some c \<Rightarrow>
                (True, updateState
                         (ed1\<lparr>document := map_option (\<lambda>d. revertChange (heap ed1) d c)
                                             (document ed1)\<rparr>))))"

definition editor_redo :: "PPTXEditor \<Rightarrow> bool \<times> PPTXEditor" where
  "editor_redo ed =
     (if enableUndoRedo (options ed) \<noteq> Some True then (False, ed)
      else
        (let (change, t) = redo (changeTracker ed);
             ed1 = ed\<lparr>changeTracker := t\<rparr>
         in case change of
              None \<Rightarrow> (False, ed1)
            | Some c \<Rightarrow>
                (True, updateState
                         (ed1\<lparr>document := map_option (\<lambda>d. applyChange (heap ed1) d c)
                                             (document ed1)\<rparr>))))"

definition editor_revertAllChanges :: "PPTXEditor \<Rightarrow> PPTXEditor" where
  "editor_revertAllChanges ed =
     (case document ed of
        None \<Rightarrow> ed
      | Some doc \<Rightarrow>
          (let (cs, t) = revertAllChanges (changeTracker ed)
           in updateState (ed\<lparr>changeTracker := t,
                               document := Some (foldl (revertChange (heap ed)) doc cs)\<rparr>)))"

definition revertSlideChanges :: "PPTXEditor \<Rightarrow> string \<Rightarrow> PPTXEditor" where
  "revertSlideChanges ed sId =
     (case document ed of
        None \<Rightarrow> ed
      | Some doc \<Rightarrow>
          updateState (ed\<lparr>document :=
            Some (foldl (revertChange (heap ed)) doc (getChangesForSlide (changeTracker ed) sId))\<rparr>))"

text \<open>The text of the element with the given id on the current slide, as a reader sees it.\<close>

definition element_text :: "PPTXEditor \<Rightarrow> string \<Rightarrow> string option" where
  "element_text ed eId =
     (case getCurrentSlide ed of
        None \<Rightarrow> None
      | Some slide \<Rightarrow>
          (case find_element (heap ed) (elements slide) eId of
             None \<Rightarrow> None
           | Some a \<Rightarrow> c_text (contents (heap ed) (o_content (elems (heap ed) a)))))"

text \<open>\<open>snapshot.content.text\<close> of a snapshot held by a change record.\<close>

definition snapshot_text :: "PPTXEditor \<Rightarrow> addr option \<Rightarrow> string option" where
  "snapshot_text ed snap =
     (case snap of
        None \<Rightarrow> None
      | Some a \<Rightarrow> c_text (contents (heap ed) (o_content (elems (heap ed) a))))"

text \<open>
  The target of a mutating call is missing when no document is loaded, when no slide is
  current, or when the current slide has no element with the given id.
\<close>

definition target_missing :: "PPTXEditor \<Rightarrow> string \<Rightarrow> bool" where
  "target_missing ed eId =
     (case document ed of
        None \<Rightarrow> True
      | Some doc \<Rightarrow>
          (case getCurrentSlide ed of
             None \<Rightarrow> True
           | Some slide \<Rightarrow> find_element (heap ed) (elements slide) eId = None))"

section \<open>The re-encoder (PPTXExporter.ts)\<close>

text \<open>
  The exporter edits XML text with regular expressions.  All four have the same shape: an
  opening literal, for the text run also \<open>[^>]*>\<close>, then \<open>.*?\<close> and a closing literal.
  \<open>[^>]*>\<close> can only end at the first \<open>>\<close>; the lazy \<open>.*?\<close> ends at the first occurrence of
  the closing literal and does not cross a line terminator.  A match is given by its length.
\<close>

record tag_pattern =
  open_lit :: string
  any_attributes :: bool
  close_lit :: string

fun after_gt :: "string \<Rightarrow> string option" where
  "after_gt [] = None"
| "after_gt (c # cs) = (if c = CHR ''>'' then Some cs else after_gt cs)"

fun lazy_until :: "string \<Rightarrow> string \<Rightarrow> nat option" where
  "lazy_until cl [] = (if cl = [] then Some 0 else None)"
| "lazy_until cl (c # cs) =
     (if startsWith (c # cs) cl then Some (length cl)
      else if is_line_terminator c then None
      else map_option Suc (lazy_until cl cs))"

definition match_here :: "tag_pattern \<Rightarrow> string \<Rightarrow> nat option" where
  "match_here p s =
     (if \<not> startsWith s (open_lit p) then None
      else
        (let s1 = drop (length (open_lit p)) s
         in case (if any_attributes p then after_gt s1 else Some s1) of
              None \<Rightarrow> None
            | Some s2 \<Rightarrow>
                map_option (\<lambda>k. length s - length s2 + k) (lazy_until (close_lit p) s2)))"

text \<open>
  The replacement text of \<open>String.prototype.replace\<close>: in the template \<open>$$\<close> stands for a
  dollar sign, \<open>$&\<close> for the match, \<open>$`\<close> for the text before it and \<open>$'\<close> for the text after
  it.  The patterns have no capture groups, so every other \<open>$\<close> stays as it is.
\<close>

fun get_substitution :: "string \<Rightarrow> string \<Rightarrow> string \<Rightarrow> string \<Rightarrow> string" where
  "get_substitution matched preceding following [] = []"
| "get_substitution matched preceding following [c] = [c]"
| "get_substitution matched preceding following (c # d # rest) =
     (if c = CHR ''$'' \<and> d = CHR ''$'' then CHR ''$'' # get_substitution matched preceding following rest
      else if c = CHR ''$'' \<and> d = CHR ''&'' then matched @ get_substitution matched preceding following rest
      else if c = CHR ''$'' \<and> d = CHR 0x60 then preceding @ get_substitution matched preceding following rest
      else if c = CHR ''$'' \<and> d = CHR 0x27 then following @ get_substitution matched preceding following rest
      else c # get_substitution matched preceding following (d # rest))"

text \<open>
  Replacing with the flag \<open>g\<close>: the text is scanned from the left, every match is replaced
  and the scan goes on behind it.  \<open>preceding\<close> is the text already passed.  The opening
  literals are not empty, so a match is never empty.
\<close>

function replace_all_from :: "tag_pattern \<Rightarrow> string \<Rightarrow> string \<Rightarrow> string \<Rightarrow> string" where
  "replace_all_from p template preceding [] = []"
| "replace_all_from p template preceding (c # cs) =
     (case match_here p (c # cs) of
        None \<Rightarrow> c # replace_all_from p template (preceding @ [c]) cs
      | Some n \<Rightarrow>
          if n = 0 then c # replace_all_from p template (preceding @ [c]) cs
          else get_substitution (take n (c # cs)) preceding (drop n (c # cs)) template
               @ replace_all_from p template (preceding @ take n (c # cs)) (drop n (c # cs)))"
  by pat_completeness auto
termination
  by (relation "measure (\<lambda>(p, template, preceding, s). length s)") auto

definition replace_all :: "tag_pattern \<Rightarrow> string \<Rightarrow> string \<Rightarrow> string" where
  "replace_all p template s = replace_all_from p template [] s"

text \<open>Replacing without the flag: the first match only.\<close>

fun replace_first_from :: "tag_pattern \<Rightarrow> string \<Rightarrow> string \<Rightarrow> string \<Rightarrow> string" where
  "replace_first_from p template preceding [] = []"
| "replace_first_from p template preceding (c # cs) =
     (case match_here p (c # cs) of
        None \<Rightarrow> c # replace_first_from p template (preceding @ [c]) cs
      | Some n \<Rightarrow>
          get_substitution (take n (c # cs)) preceding (drop n (c # cs)) template @ drop n (c # cs))"

definition replace_first :: "tag_pattern \<Rightarrow> string \<Rightarrow> string \<Rightarrow> string" where
  "replace_first p template s = replace_first_from p template [] s"

definition textPattern :: tag_pattern where
  "textPattern = \<lparr>open_lit = ''<a:t'', any_attributes = True, close_lit = ''</a:t>''\<rparr>"




text \<open>\<open>${element.content.text}\<close> in a template literal: an absent text prints as \<open>undefined\<close>.\<close>

definition text_or_undefined :: "string option \<Rightarrow> string" where
  "text_or_undefined t = (case t of Some s \<Rightarrow> s | None \<Rightarrow> ''undefined'')"

text \<open>
  The exporter reads the document the editor holds, elements through the store.
\<close>

definition updateTextElement :: "store \<Rightarrow> string \<Rightarrow> addr \<Rightarrow> string" where
  "updateTextElement h xml element =
     replace_all textPattern
       (''<a:t>'' @ text_or_undefined (c_text (contents h (o_content (elems h element)))) @ ''</a:t>'')
       xml"

definition updateImageElement :: "store \<Rightarrow> string \<Rightarrow> addr \<Rightarrow> string" where
  "updateImageElement h xml element = xml"

definition updateShapeElement :: "store \<Rightarrow> string \<Rightarrow> addr \<Rightarrow> string" where
  "updateShapeElement h xml element = xml"

definition update_element_xml :: "store \<Rightarrow> string \<Rightarrow> addr \<Rightarrow> string" where
  "update_element_xml h updatedXml element =
     (if o_type (elems h element) = TextT then updateTextElement h updatedXml element
      else if o_type (elems h element) = ImageT then updateImageElement h updatedXml element
      else if o_type (elems h element) = ShapeT then updateShapeElement h updatedXml element
      else updatedXml)"

definition updateSlideXML :: "store \<Rightarrow> string \<Rightarrow> addr PPTXSlide \<Rightarrow> string" where
  "updateSlideXML h originalXml slide = foldl (update_element_xml h) originalXml (elements slide)"










text \<open>
  What the specification asks of \<open>updateTextElement\<close>: only the first matching text node is
  replaced.
\<close>

definition spec_updateTextElement :: "store \<Rightarrow> string \<Rightarrow> addr \<Rightarrow> string" where
  "spec_updateTextElement h xml element =
     replace_first textPattern
       (''<a:t>'' @ text_or_undefined (c_text (contents h (o_content (elems h element)))) @ ''</a:t>'')
       xml"

text \<open>
  Slide XML seen as text runs in their context: each entry is the text before a run, the
  attribute text of its \<open>a:t\<close> tag and its content; \<open>tail\<close> is the text after the last run.
  The parts are separable when no \<open>a:t\<close> tag opens in the text between runs, no attribute
  text contains \<open>>\<close>, and no content contains \<open><\<close> or a line break.
\<close>

fun xml_with_runs :: "(string \<times> string \<times> string) list \<Rightarrow> string \<Rightarrow> string" where
  "xml_with_runs [] tail = tail"
| "xml_with_runs ((plain, attrs, body) # rs) tail =
     plain @ ''<a:t'' @ attrs @ ''>'' @ body @ ''</a:t>'' @ xml_with_runs rs tail"

fun runs_separable :: "(string \<times> string \<times> string) list \<Rightarrow> string \<Rightarrow> bool" where
  "runs_separable [] tail = (\<not> js_includes tail ''<a:t'')"
| "runs_separable ((plain, attrs, body) # rs) tail =
     (\<not> js_includes plain ''<a:t'' \<and> CHR ''>'' \<notin> set attrs \<and> CHR ''<'' \<notin> set body
      \<and> \<not> list_ex is_line_terminator body \<and> runs_separable rs tail)"

text \<open>A run after the substitution: no attributes, the new text as content.\<close>

definition with_text :: "string \<Rightarrow> string \<times> string \<times> string \<Rightarrow> string \<times> string \<times> string" where
  "with_text txt r = (fst r, [], txt)"

definition element_text_of :: "store \<Rightarrow> addr \<Rightarrow> string" where
  "element_text_of h element = text_or_undefined (c_text (contents h (o_content (elems h element))))"

definition is_text_element :: "store \<Rightarrow> addr \<Rightarrow> bool" where
  "is_text_element h element = (o_type (elems h element) = TextT)"

text \<open>
  The matches of a pattern in a text, as a global regular expression finds them: the text
  is scanned from the left, a match is taken where one starts, and the scan goes on behind
  it.  The result lists every match together with the unmatched text in front of it, and
  the unmatched text after the last match.
\<close>

definition push_char :: "char \<Rightarrow> (string \<times> string) list \<times> string \<Rightarrow> (string \<times> string) list \<times> string" where
  "push_char c r =
     (case fst r of
        [] \<Rightarrow> ([], c # snd r)
      | (plain, m) # segs \<Rightarrow> ((c # plain, m) # segs, snd r))"

function find_matches :: "tag_pattern \<Rightarrow> string \<Rightarrow> (string \<times> string) list \<times> string" where
  "find_matches p [] = ([], [])"
| "find_matches p (c # cs) =
     (case match_here p (c # cs) of
        None \<Rightarrow> push_char c (find_matches p cs)
      | Some n \<Rightarrow>
          if n = 0 then push_char c (find_matches p cs)
          else (([], take n (c # cs)) # fst (find_matches p (drop n (c # cs))),
                snd (find_matches p (drop n (c # cs)))))"
  by pat_completeness auto
termination
  by (relation "measure (\<lambda>(p, s). length s)") auto

fun original_text :: "(string \<times> string) list \<Rightarrow> string \<Rightarrow> string" where
  "original_text [] tail = tail"
| "original_text ((plain, m) # segs) tail = plain @ m @ original_text segs tail"

text \<open>
  A listing is the listing of the leftmost matches when every listed match is a match
  of the pattern where it stands, and no match starts in the text between the matches.
\<close>

fun match_free :: "tag_pattern \<Rightarrow> string \<Rightarrow> string \<Rightarrow> bool" where
  "match_free p [] following = True"
| "match_free p (c # cs) following =
     (match_here p (c # cs @ following) \<in> {None, Some 0} \<and> match_free p cs following)"

fun leftmost_matches :: "tag_pattern \<Rightarrow> (string \<times> string) list \<Rightarrow> string \<Rightarrow> bool" where
  "leftmost_matches p [] tail = match_free p tail []"
| "leftmost_matches p ((plain, m) # segs) tail =
     (match_free p plain (m @ original_text segs tail)
      \<and> 0 < length m
      \<and> match_here p (m @ original_text segs tail) = Some (length m)
      \<and> leftmost_matches p segs tail)"

text \<open>
  The text with every listed match replaced by the expansion of a template; the text
  between the matches stays.  \<open>preceding\<close> is the original text in front of the listing.
\<close>

fun substitute_from :: "string \<Rightarrow> string \<Rightarrow> (string \<times> string) list \<Rightarrow> string \<Rightarrow> string" where
  "substitute_from template preceding [] tail = tail"
| "substitute_from template preceding ((plain, m) # segs) tail =
     plain @ get_substitution m (preceding @ plain) (original_text segs tail) template
     @ substitute_from template (preceding @ plain @ m) segs tail"






section \<open>Sample containers\<close>

text \<open>
  Three small presentations, each with its slide part as text and as the tree the XML
  parser yields for that text.  The first has one text box reading \<open>Hello\<close>; the second has
  one text box whose paragraph is split into the runs \<open>Hello\<close> and \<open>World\<close>; the third has a
  shape, a picture and a second shape, in this order.
\<close>

definition namespaces :: "(string \<times> string) list" where
  "namespaces =
     [(''xmlns:a'', ''http://schemas.openxmlformats.org/drawingml/2006/main''),
      (''xmlns:r'', ''http://schemas.openxmlformats.org/officeDocument/2006/relationships''),
      (''xmlns:p'', ''http://schemas.openxmlformats.org/presentationml/2006/main'')]"

definition sld_open :: string where
  "sld_open = ''<p:sld xmlns:a=\"http://schemas.openxmlformats.org/drawingml/2006/main\" xmlns:r=\"http://schemas.openxmlformats.org/officeDocument/2006/relationships\" xmlns:p=\"http://schemas.openxmlformats.org/presentationml/2006/main\"><p:cSld><p:spTree>''"

definition sld_close :: string where
  "sld_close = ''</p:spTree></p:cSld></p:sld>''"

definition sld_dom :: "dom list \<Rightarrow> dom" where
  "sld_dom children =
     DElem ''p:sld'' namespaces [DElem ''p:cSld'' [] [DElem ''p:spTree'' [] children]]"

definition spPr_xml :: string where
  "spPr_xml = ''<p:spPr><a:xfrm><a:off x=\"914400\" y=\"914400\"/><a:ext cx=\"3657600\" cy=\"914400\"/></a:xfrm></p:spPr>''"

definition spPr_dom :: dom where
  "spPr_dom =
     DElem ''p:spPr'' []
       [DElem ''a:xfrm'' []
          [DElem ''a:off'' [(''x'', ''914400''), (''y'', ''914400'')] [],
           DElem ''a:ext'' [(''cx'', ''3657600''), (''cy'', ''914400'')] []]]"

definition run_xml :: "string \<Rightarrow> string" where
  "run_xml t = ''<a:r><a:t>'' @ t @ ''</a:t></a:r>''"

definition run_dom :: "string \<Rightarrow> dom" where
  "run_dom t = DElem ''a:r'' [] [DElem ''a:t'' [] [DText t]]"

definition txBody_xml :: "string list \<Rightarrow> string" where
  "txBody_xml ts = ''<p:txBody><a:p>'' @ concat (map run_xml ts) @ ''</a:p></p:txBody>''"

definition txBody_dom :: "string list \<Rightarrow> dom" where
  "txBody_dom ts = DElem ''p:txBody'' [] [DElem ''a:p'' [] (map run_dom ts)]"

definition txBox_xml :: "string list \<Rightarrow> string" where
  "txBox_xml ts = ''<p:txBox>'' @ spPr_xml @ txBody_xml ts @ ''</p:txBox>''"

definition txBox_dom :: "string list \<Rightarrow> dom" where
  "txBox_dom ts = DElem ''p:txBox'' [] [spPr_dom, txBody_dom ts]"

definition sp_xml :: "string \<Rightarrow> string" where
  "sp_xml t = ''<p:sp>'' @ spPr_xml @ txBody_xml [t] @ ''</p:sp>''"

definition sp_dom :: "string \<Rightarrow> dom" where
  "sp_dom t = DElem ''p:sp'' [] [spPr_dom, txBody_dom [t]]"

definition pic_xml :: "string \<Rightarrow> string" where
  "pic_xml d = ''<p:pic><p:nvPicPr><p:cNvPr id=\"2\" descr=\"'' @ d @ ''\"/></p:nvPicPr><p:blipFill><a:blip r:embed=\"rId2\"/></p:blipFill>'' @ spPr_xml @ ''</p:pic>''"

definition pic_dom :: "string \<Rightarrow> dom" where
  "pic_dom d =
     DElem ''p:pic'' []
       [DElem ''p:nvPicPr'' [] [DElem ''p:cNvPr'' [(''id'', ''2''), (''descr'', d)] []],
        DElem ''p:blipFill'' [] [DElem ''a:blip'' [(''r:embed'', ''rId2'')] []],
        spPr_dom]"

definition hello_slide_xml :: string where
  "hello_slide_xml = sld_open @ txBox_xml [''Hello''] @ sld_close"

definition hello_slide_dom :: dom where
  "hello_slide_dom = sld_dom [txBox_dom [''Hello'']]"

definition two_runs_slide_xml :: string where
  "two_runs_slide_xml = sld_open @ txBox_xml [''Hello'', ''World''] @ sld_close"

definition two_runs_slide_dom :: dom where
  "two_runs_slide_dom = sld_dom [txBox_dom [''Hello'', ''World'']]"

definition mixed_slide_xml :: string where
  "mixed_slide_xml = sld_open @ sp_xml ''first'' @ pic_xml ''second'' @ sp_xml ''third'' @ sld_close"

definition mixed_slide_dom :: dom where
  "mixed_slide_dom = sld_dom [sp_dom ''first'', pic_dom ''second'', sp_dom ''third'']"

definition presentation_rels_xml :: string where
  "presentation_rels_xml = ''<Relationships xmlns=\"http://schemas.openxmlformats.org/package/2006/relationships\"><Relationship Id=\"rId1\" Type=\"http://schemas.openxmlformats.org/officeDocument/2006/relationships/slide\" Target=\"slides/slide1.xml\"/></Relationships>''"

definition presentation_rels_dom :: dom where
  "presentation_rels_dom =
     DElem ''Relationships''
       [(''xmlns'', ''http://schemas.openxmlformats.org/package/2006/relationships'')]
       [DElem ''Relationship''
          [(''Id'', ''rId1''),
           (''Type'', ''http://schemas.openxmlformats.org/officeDocument/2006/relationships/slide''),
           (''Target'', ''slides/slide1.xml'')] []]"

text \<open>
  Document properties for a container that has them.  The element \<open>dcterms:modified\<close> is
  written without attributes here, so that the exporter's pattern finds it.
\<close>

definition app_xml :: string where
  "app_xml = ''<Properties xmlns=\"http://schemas.openxmlformats.org/officeDocument/2006/extended-properties\"><Application>Editor</Application><Slides>1</Slides></Properties>''"

definition app_dom :: dom where
  "app_dom =
     DElem ''Properties''
       [(''xmlns'', ''http://schemas.openxmlformats.org/officeDocument/2006/extended-properties'')]
       [DElem ''Application'' [] [DText ''Editor''], DElem ''Slides'' [] [DText ''1'']]"

definition core_open :: string where
  "core_open = ''<cp:coreProperties xmlns:cp=\"http://schemas.openxmlformats.org/package/2006/metadata/core-properties\" xmlns:dc=\"http://purl.org/dc/elements/1.1/\" xmlns:dcterms=\"http://purl.org/dc/terms/\"><dc:creator>Ann</dc:creator>''"

definition core_xml :: string where
  "core_xml = core_open @ ''<dcterms:modified>2020-01-01T00:00:00Z</dcterms:modified></cp:coreProperties>''"

definition core_dom :: dom where
  "core_dom =
     DElem ''cp:coreProperties''
       [(''xmlns:cp'', ''http://schemas.openxmlformats.org/package/2006/metadata/core-properties''),
        (''xmlns:dc'', ''http://purl.org/dc/elements/1.1/''),
        (''xmlns:dcterms'', ''http://purl.org/dc/terms/'')]
       [DElem ''dc:creator'' [] [DText ''Ann''],
        DElem ''dcterms:modified'' [] [DText ''2020-01-01T00:00:00Z'']]"

text \<open>
  The XML parser on the sample parts; on any other text it reports a parse error, as
  \<open>DOMParser\<close> does, with a \<open>parsererror\<close> document.  No sample has a media part, so \<open>btoa\<close> is
  never called.  Every sample part is ASCII text, which is its own UTF-8 encoding.
\<close>

definition sample_parseXML :: "string \<Rightarrow> dom" where
  "sample_parseXML s =
     (if s = presentation_rels_xml then presentation_rels_dom
      else if s = hello_slide_xml then hello_slide_dom
      else if s = two_runs_slide_xml then two_runs_slide_dom
      else if s = mixed_slide_xml then mixed_slide_dom
      else if s = app_xml then app_dom
      else if s = core_xml then core_dom
      else DElem ''parsererror'' [] [DText ''error''])"

definition sample_runtime :: runtime where
  "sample_runtime = \<lparr>parseXML = sample_parseXML, btoa = (\<lambda>bytes. []),
                     utf8decode = (\<lambda>bytes. bytes), utf8encode = (\<lambda>txt. txt)\<rparr>"

definition sample_zip :: "string \<Rightarrow> zip" where
  "sample_zip slideXml =
     [''ppt/_rels/presentation.xml.rels'' \<mapsto> File presentation_rels_xml,
      ''ppt/slides/slide1.xml'' \<mapsto> File slideXml]"

definition hello_zip :: zip where
  "hello_zip = sample_zip hello_slide_xml"

definition two_runs_zip :: zip where
  "two_runs_zip = sample_zip two_runs_slide_xml"

definition mixed_zip :: zip where
  "mixed_zip = sample_zip mixed_slide_xml"


text \<open>An editor with default options that has loaded the first sample.\<close>

definition hello_editor :: PPTXEditor where
  "hello_editor =
     loadPPTX (new_PPTXEditor no_options) hello_zip
       (parsePPTX sample_runtime hello_zip new_parser_document)"

definition two_runs_editor :: PPTXEditor where
  "two_runs_editor =
     loadPPTX (new_PPTXEditor no_options) two_runs_zip
       (parsePPTX sample_runtime two_runs_zip new_parser_document)"

text \<open>
  The path rule as the specification words it, with \<open>ppt/\<close> as the package root and
  \<open>ppt/slides/\<close> as the slides folder.
\<close>

definition spec_absoluteImagePath :: "string \<Rightarrow> string" where
  "spec_absoluteImagePath targetPath =
     (if startsWith targetPath ''../'' then ''ppt/'' @ drop 3 targetPath
      else if startsWith targetPath ''./'' then ''ppt/slides/'' @ drop 2 targetPath
      else ''ppt/'' @ targetPath)"

text \<open>The sample parts after \<open>xmlToObject\<close>.\<close>

definition spPr_obj :: jsval where
  "spPr_obj =
     JObj None
       [(''a:xfrm'',
         [JObj None
            [(''a:off'', [JObj (Some [(''x'', ''914400''), (''y'', ''914400'')]) []]),
             (''a:ext'', [JObj (Some [(''cx'', ''3657600''), (''cy'', ''914400'')]) []])]])]"

definition run_obj :: "string \<Rightarrow> jsval" where
  "run_obj t = JObj None [(''a:t'', [JStr t])]"

definition txBody_obj :: "string list \<Rightarrow> jsval" where
  "txBody_obj ts = JObj None [(''a:p'', [JObj None [(''a:r'', map run_obj ts)]])]"

definition txBox_obj :: "string list \<Rightarrow> jsval" where
  "txBox_obj ts = JObj None [(''p:spPr'', [spPr_obj]), (''p:txBody'', [txBody_obj ts])]"

definition sp_obj :: "string \<Rightarrow> jsval" where
  "sp_obj t = JObj None [(''p:spPr'', [spPr_obj]), (''p:txBody'', [txBody_obj [t]])]"

definition pic_obj :: "string \<Rightarrow> jsval" where
  "pic_obj d =
     JObj None
       [(''p:nvPicPr'', [JObj None [(''p:cNvPr'', [JObj (Some [(''id'', ''2''), (''descr'', d)]) []])]]),
        (''p:blipFill'', [JObj None [(''a:blip'', [JObj (Some [(''r:embed'', ''rId2'')]) []])]]),
        (''p:spPr'', [spPr_obj])]"

definition sld_obj :: "(string \<times> jsval list) list \<Rightarrow> jsval" where
  "sld_obj groups =
     JObj (Some namespaces) [(''p:cSld'', [JObj None [(''p:spTree'', [JObj None groups])]])]"

text \<open>The element decoded from the sample text box, by the text it holds.\<close>

definition textbox_element :: "string list \<Rightarrow> SlideElement" where
  "textbox_element ts =
     \<lparr>el_id = ''textbox-0'', el_type = TextT,
      el_position = \<lparr>pos_x = Num 72, pos_y = Num 72\<rparr>,
      el_size = \<lparr>sz_width = Num 288, sz_height = Num 72\<rparr>,
      el_content = empty_content\<lparr>c_text := Some (concat ts)\<rparr>,
      el_style = Some empty_style, el_originalData = Some (txBox_obj ts),
      el_zIndex = Some 0\<rparr>"

definition textbox_document :: "string list \<Rightarrow> SlideElement PPTXDocument" where
  "textbox_document ts =
     \<lparr>slides = [\<lparr>s_id = ''slide-1'', slideNumber = 1, elements = [textbox_element ts],
                  background = None, layout = Some ''default'', imageDataResolved = False\<rparr>],
      metadata = \<lparr>title = [], author = [], subject = [], md_keywords = [],
                   created = DateNow, modified = DateNow\<rparr>,
      theme = None\<rparr>"

text \<open>The sample text-box slides as text runs in context.\<close>

definition txBox_head :: string where
  "txBox_head = sld_open @ ''<p:txBox>'' @ spPr_xml @ ''<p:txBody><a:p><a:r>''"

definition txBox_tail :: string where
  "txBox_tail = ''</a:r></a:p></p:txBody></p:txBox>'' @ sld_close"

definition two_runs_pieces :: "(string \<times> string \<times> string) list" where
  "two_runs_pieces = [(txBox_head, [], ''Hello''), (''</a:r><a:r>'', [], ''World'')]"

definition double_node_pieces :: "(string \<times> string \<times> string) list" where
  "double_node_pieces = [(''<a:r>'', [], ''A''), ([], [], ''B'')]"

definition small_pieces :: "(string \<times> string \<times> string) list" where
  "small_pieces = [(''<a:r>'', [], ''A''), (''</a:r><a:r>'', '' xml:space=\"preserve\"'', ''B'')]"


section \<open>Properties of the change tracker\<close>

lemma js_slice_prefix:
  "- 1 \<le> i \<Longrightarrow> js_slice xs 0 (i + 1) = take (nat (i + 1)) xs"
  by (auto simp: js_slice_def js_rel_index_def Let_def min_def)

lemma record_one_pushes:
  "record_one t c =
     (let pushed = js_slice (changes t) 0 (currentIndex t + 1) @ [c]
      in if int (length pushed) > maxUndoSteps t
         then t\<lparr>changes := js_shift pushed, currentIndex := currentIndex t\<rparr>
         else t\<lparr>changes := pushed, currentIndex := currentIndex t + 1\<rparr>)"
  by (cases c) (simp add: record_one_def recordChange_def Let_def)

lemma recordChange_maxUndoSteps [simp]:
  "maxUndoSteps (recordChange t i n ty e s p q d) = maxUndoSteps t"
  by (simp add: recordChange_def Let_def)

lemma recordChange_cursor_at_tail:
  assumes "cursor_ok t"
  shows "currentIndex (recordChange t i n ty e s p q d)
         = int (length (changes (recordChange t i n ty e s p q d))) - 1"
  using assms
  by (auto simp: recordChange_def Let_def js_slice_prefix cursor_ok_def js_shift_def min_def)

lemma recordChange_length_le:
  assumes "int (length (changes t)) \<le> maxUndoSteps t" "cursor_ok t"
  shows "int (length (changes (recordChange t i n ty e s p q d))) \<le> maxUndoSteps t"
  using assms
  by (auto simp: recordChange_def Let_def js_slice_prefix cursor_ok_def js_shift_def min_def)

lemma recordChange_cursor_ok:
  assumes "cursor_ok t"
  shows "cursor_ok (recordChange t i n ty e s p q d)"
  using recordChange_cursor_at_tail [OF assms, of i n ty e s p q d]
  by (simp add: cursor_ok_def)

lemma undo_cursor_ok: "cursor_ok t \<Longrightarrow> cursor_ok (snd (undo t))"
  by (auto simp: undo_def canUndo_def cursor_ok_def)

lemma redo_cursor_ok: "cursor_ok t \<Longrightarrow> cursor_ok (snd (redo t))"
  by (auto simp: redo_def canRedo_def cursor_ok_def)

text \<open>
  Recording from a state whose cursor is at the tail and whose log fits the capacity:
  the log becomes the last \<open>N\<close> entries of the old log followed by the new records.
\<close>

lemma record_one_window:
  assumes "currentIndex t = int (length (changes t)) - 1"
    and "length (changes t) \<le> N" and "maxUndoSteps t = int N"
  shows "changes (record_one t c) = drop (Suc (length (changes t)) - N) (changes t @ [c])
       \<and> currentIndex (record_one t c) = int (length (changes (record_one t c))) - 1
       \<and> length (changes (record_one t c)) \<le> N
       \<and> maxUndoSteps (record_one t c) = int N"
proof -
  have k: "js_slice (changes t) 0 (currentIndex t + 1) = changes t"
    using assms(1) by (simp add: js_slice_def js_rel_index_def)
  show ?thesis
  proof (cases "length (changes t) = N")
    case True
    then show ?thesis
      using assms k by (cases "changes t") (auto simp: record_one_pushes Let_def js_shift_def)
  next
    case False
    then have "length (changes t) < N" using assms(2) by simp
    then show ?thesis
      using assms k by (auto simp: record_one_pushes Let_def js_shift_def)
  qed
qed

lemma record_each_window:
  assumes "currentIndex t = int (length (changes t)) - 1"
    and "length (changes t) \<le> N" and "maxUndoSteps t = int N"
  shows "changes (record_each t cs)
           = drop (length (changes t) + length cs - N) (changes t @ cs)
       \<and> currentIndex (record_each t cs) = int (length (changes (record_each t cs))) - 1"
  using assms
proof (induction cs arbitrary: t)
  case Nil
  then show ?case by (simp add: record_each_def)
next
  case (Cons c cs)
  note w = record_one_window [OF Cons.prems, of c]
  have step: "record_each t (c # cs) = record_each (record_one t c) cs"
    by (simp add: record_each_def)
  from w have a: "currentIndex (record_one t c) = int (length (changes (record_one t c))) - 1"
    and b: "length (changes (record_one t c)) \<le> N"
    and m: "maxUndoSteps (record_one t c) = int N"
    and ch: "changes (record_one t c) = drop (Suc (length (changes t)) - N) (changes t @ [c])"
    by simp_all
  note ih = Cons.IH [OF a b m]
  have len: "length (changes (record_one t c)) = Suc (length (changes t)) - (Suc (length (changes t)) - N)"
    by (simp add: ch)
  have "drop (length (changes (record_one t c)) + length cs - N) (changes (record_one t c) @ cs)
        = drop (length (changes t) + length (c # cs) - N) (changes t @ c # cs)"
  proof -
    let ?k = "Suc (length (changes t)) - N"
    have k1: "?k \<le> 1" using Cons.prems(2) by simp
    have "drop ?k ((changes t @ [c]) @ cs) = drop ?k (changes t @ [c]) @ cs"
      using k1 by (simp del: append_assoc)
    then have e1: "changes (record_one t c) @ cs = drop ?k (changes t @ c # cs)"
      using ch by simp
    have e2: "length (changes (record_one t c)) + length cs - N + ?k
                    = length (changes t) + length (c # cs) - N"
      using len Cons.prems(2) by auto
    show ?thesis by (simp only: e1 drop_drop e2)
  qed
  with ih step show ?case by simp
qed

text \<open>
  C5.  A tracker constructed with capacity \<open>N\<close> that records \<open>N + 5\<close> mutations holds
  exactly \<open>N\<close> entries: they are the last \<open>N\<close> recorded (the oldest five are gone), and the
  cursor is the index of the last entry, which for \<open>N > 0\<close> is the most recent record.
\<close>

theorem bounded_history_evicts_oldest:
  assumes "length cs = N + 5"
  shows "length (changes (record_each (new_ChangeTracker (int N)) cs)) = N
       \<and> changes (record_each (new_ChangeTracker (int N)) cs) = drop 5 cs
       \<and> currentIndex (record_each (new_ChangeTracker (int N)) cs) = int N - 1
       \<and> (0 < N \<longrightarrow>
            js_index (changes (record_each (new_ChangeTracker (int N)) cs))
                     (currentIndex (record_each (new_ChangeTracker (int N)) cs))
              = Some (last cs))"
proof -
  let ?t = "new_ChangeTracker (int N) :: 'a ChangeTracker"
  have w: "changes (record_each ?t cs) = drop (length (changes ?t) + length cs - N) (changes ?t @ cs)
         \<and> currentIndex (record_each ?t cs) = int (length (changes (record_each ?t cs))) - 1"
    by (rule record_each_window) (simp_all add: new_ChangeTracker_def)
  have ch: "changes (record_each ?t cs) = drop 5 cs"
    using w assms by (simp add: new_ChangeTracker_def)
  have len: "length (changes (record_each ?t cs)) = N"
    using ch assms by simp
  have cur: "currentIndex (record_each ?t cs) = int N - 1"
    using w len by simp
  have "js_index (drop 5 cs) (int N - 1) = Some (last cs)" if "0 < N"
  proof -
    have ne: "drop 5 cs \<noteq> []" using assms that by auto
    have "js_index (drop 5 cs) (int N - 1) = Some (drop 5 cs ! (N - 1))"
      using that assms by (auto simp: js_index_def nat_diff_distrib)
    also have "drop 5 cs ! (N - 1) = last (drop 5 cs)"
      using ne assms by (simp add: last_conv_nth)
    also have "last (drop 5 cs) = last cs"
      using assms that by simp
    finally show ?thesis .
  qed
  with ch len cur show ?thesis by simp
qed


theorem bounded_history_evicts_oldest_witness:
  "length ten_changes = 5 + 5
   \<and> length (changes (record_each (new_ChangeTracker (int 5)) ten_changes)) = 5
   \<and> changes (record_each (new_ChangeTracker (int 5)) ten_changes)
       = [sample_change 15, sample_change 16, sample_change 17, sample_change 18, sample_change 19]
   \<and> js_index (changes (record_each (new_ChangeTracker (int 5)) ten_changes))
                (currentIndex (record_each (new_ChangeTracker (int 5)) ten_changes))
       = Some (sample_change 19)"
proof -
  have h: "length ten_changes = 5 + 5" by (simp add: ten_changes_def)
  have d: "drop 5 ten_changes
           = [sample_change 15, sample_change 16, sample_change 17, sample_change 18, sample_change 19]"
    by (simp add: ten_changes_def)
  have l: "last ten_changes = sample_change 19"
    by (simp add: ten_changes_def)
  show ?thesis
    using bounded_history_evicts_oldest [OF h] h d l by (simp add: js_index_def)
qed

text \<open>
  C6.  In every tracker state that satisfies the cursor invariant, recording a mutation
  keeps the records up to the cursor, drops every record after it, and appends the new
  record (the oldest entry leaves when the capacity is exceeded); afterwards \<open>canRedo\<close> is
  false and \<open>redo\<close> returns \<open>null\<close>.  In particular this holds after a successful \<open>undo\<close>.
\<close>

theorem record_discards_redo_branch:
  assumes "cursor_ok t"
  shows "changes (recordChange t i n ty e s p q d)
           = drop (if int (nat (currentIndex t + 1)) + 1 > maxUndoSteps t then 1 else 0)
               (take (nat (currentIndex t + 1)) (changes t)
                @ [\<lparr>cid = i, timestamp = n, ctype = ty, elementId = e, slideId = s,
                     previousState = p, newState = q, description = d\<rparr>])
       \<and> \<not> canRedo (recordChange t i n ty e s p q d)
       \<and> fst (redo (recordChange t i n ty e s p q d)) = None
       \<and> (fst (undo t) \<noteq> None \<longrightarrow>
            \<not> canRedo (recordChange (snd (undo t)) i n ty e s p q d)
            \<and> redo (recordChange (snd (undo t)) i n ty e s p q d)
                = (None, recordChange (snd (undo t)) i n ty e s p q d))"
proof -
  have tail: "\<not> canRedo (recordChange u i n ty e s p q d)" if "cursor_ok u" for u :: "'a ChangeTracker"
    using recordChange_cursor_at_tail [OF that, of i n ty e s p q d]
    by (simp add: canRedo_def)
  have nored: "redo (recordChange u i n ty e s p q d) = (None, recordChange u i n ty e s p q d)"
    if "cursor_ok u" for u :: "'a ChangeTracker"
    using tail [OF that] by (simp add: redo_def)
  have ch: "changes (recordChange t i n ty e s p q d)
           = drop (if int (nat (currentIndex t + 1)) + 1 > maxUndoSteps t then 1 else 0)
               (take (nat (currentIndex t + 1)) (changes t)
                @ [\<lparr>cid = i, timestamp = n, ctype = ty, elementId = e, slideId = s,
                     previousState = p, newState = q, description = d\<rparr>])"
    using assms
    by (auto simp: recordChange_def Let_def js_slice_prefix cursor_ok_def js_shift_def min_def)
  show ?thesis
    using ch tail [OF assms] nored [OF assms] tail [OF undo_cursor_ok [OF assms]]
      nored [OF undo_cursor_ok [OF assms]]
    by simp
qed

theorem record_discards_redo_branch_witness:
  "cursor_ok (record_each (new_ChangeTracker 5) three_changes)
   \<and> fst (undo (record_each (new_ChangeTracker 5) three_changes))
       = Some (sample_change 12)
   \<and> changes (record_one (snd (undo (record_each (new_ChangeTracker 5) three_changes)))
        (sample_change 17))
       = [sample_change 10, sample_change 11, sample_change 17]
   \<and> fst (redo (record_one (snd (undo (record_each (new_ChangeTracker 5) three_changes)))
        (sample_change 17))) = None"
proof -
  let ?t = "record_each (new_ChangeTracker 5) three_changes"
  have t: "?t = \<lparr>changes = [sample_change 10, sample_change 11, sample_change 12],
                  maxUndoSteps = 5, currentIndex = 2\<rparr>"
    by (simp add: three_changes_def record_each_def record_one_pushes new_ChangeTracker_def
        js_slice_def js_rel_index_def Let_def)
  have ok: "cursor_ok ?t" by (simp add: t cursor_ok_def)
  have u: "undo ?t = (Some (sample_change 12),
             \<lparr>changes = [sample_change 10, sample_change 11, sample_change 12],
              maxUndoSteps = 5, currentIndex = 1\<rparr>)"
    by (simp add: t undo_def canUndo_def js_index_def)
  have ok': "cursor_ok (snd (undo ?t))" by (simp add: u cursor_ok_def)
  have r: "changes (record_one (snd (undo ?t)) (sample_change 17))
           = [sample_change 10, sample_change 11, sample_change 17]"
    by (simp add: u record_one_pushes js_slice_def js_rel_index_def Let_def)
  have "fst (undo ?t) \<noteq> None" by (simp add: u)
  then have "redo (recordChange (snd (undo ?t)) (cid (sample_change 17)) (timestamp (sample_change 17))
          (ctype (sample_change 17)) (elementId (sample_change 17)) (slideId (sample_change 17))
          (previousState (sample_change 17)) (newState (sample_change 17))
          (description (sample_change 17)))
        = (None, recordChange (snd (undo ?t)) (cid (sample_change 17)) (timestamp (sample_change 17))
          (ctype (sample_change 17)) (elementId (sample_change 17)) (slideId (sample_change 17))
          (previousState (sample_change 17)) (newState (sample_change 17))
          (description (sample_change 17)))"
    using record_discards_redo_branch [OF ok] by blast
  then have "fst (redo (record_one (snd (undo ?t)) (sample_change 17))) = None"
    by (simp add: record_one_def)
  with ok u r show ?thesis by simp
qed

text \<open>
  C7.  In every tracker state that satisfies the cursor invariant: \<open>undo\<close> returns nothing
  exactly when the cursor is below 0, and otherwise returns the record at the cursor and
  decrements the cursor; \<open>redo\<close> returns nothing exactly when the cursor is at the tail of
  the log, and otherwise increments the cursor and returns the record it then points to.
\<close>

theorem undo_redo_contract:
  assumes "cursor_ok t"
  shows "(fst (undo t) = None \<longleftrightarrow> currentIndex t < 0)
       \<and> (currentIndex t < 0 \<longrightarrow> undo t = (None, t))
       \<and> (0 \<le> currentIndex t \<longrightarrow>
            undo t = (Some (changes t ! nat (currentIndex t)),
                      t\<lparr>currentIndex := currentIndex t - 1\<rparr>))
       \<and> (fst (redo t) = None \<longleftrightarrow> currentIndex t = int (length (changes t)) - 1)
       \<and> (currentIndex t = int (length (changes t)) - 1 \<longrightarrow> redo t = (None, t))
       \<and> (currentIndex t \<noteq> int (length (changes t)) - 1 \<longrightarrow>
            redo t = (Some (changes t ! nat (currentIndex t + 1)),
                      t\<lparr>currentIndex := currentIndex t + 1\<rparr>))"
  using assms
  by (auto simp: undo_def redo_def canUndo_def canRedo_def cursor_ok_def js_index_def)

theorem undo_redo_contract_witness:
  "cursor_ok \<lparr>changes = [sample_change 10, sample_change 11], maxUndoSteps = 5, currentIndex = 0\<rparr>
   \<and> undo \<lparr>changes = [sample_change 10, sample_change 11], maxUndoSteps = 5, currentIndex = 0\<rparr>
       = (Some (sample_change 10),
          \<lparr>changes = [sample_change 10, sample_change 11], maxUndoSteps = 5, currentIndex = - 1\<rparr>)
   \<and> redo \<lparr>changes = [sample_change 10, sample_change 11], maxUndoSteps = 5, currentIndex = 0\<rparr>
       = (Some (sample_change 11),
          \<lparr>changes = [sample_change 10, sample_change 11], maxUndoSteps = 5, currentIndex = 1\<rparr>)
   \<and> cursor_ok \<lparr>changes = [sample_change 10], maxUndoSteps = 5, currentIndex = - 1\<rparr>
   \<and> undo \<lparr>changes = [sample_change 10], maxUndoSteps = 5, currentIndex = - 1\<rparr>
       = (None, \<lparr>changes = [sample_change 10], maxUndoSteps = 5, currentIndex = - 1\<rparr>)
   \<and> cursor_ok \<lparr>changes = [sample_change 10], maxUndoSteps = 5, currentIndex = 0\<rparr>
   \<and> redo \<lparr>changes = [sample_change 10], maxUndoSteps = 5, currentIndex = 0\<rparr>
       = (None, \<lparr>changes = [sample_change 10], maxUndoSteps = 5, currentIndex = 0\<rparr>)"
proof -
  let ?t = "\<lparr>changes = [sample_change 10, sample_change 11], maxUndoSteps = 5, currentIndex = 0\<rparr>"
  let ?u = "\<lparr>changes = [sample_change 10], maxUndoSteps = 5, currentIndex = - 1\<rparr>"
  let ?v = "\<lparr>changes = [sample_change 10], maxUndoSteps = 5, currentIndex = 0\<rparr>"
  have ok: "cursor_ok ?t" "cursor_ok ?u" "cursor_ok ?v" by (simp_all add: cursor_ok_def)
  show ?thesis
    using undo_redo_contract [OF ok(1)] undo_redo_contract [OF ok(2)] undo_redo_contract [OF ok(3)]
      ok
    by simp
qed

text \<open>
  C10.  For a tracker whose capacity is at least 1, a freshly constructed tracker satisfies
  the invariant (cursor between \<open>-1\<close> and \<open>length - 1\<close>, length at most the capacity), and
  \<open>recordChange\<close>, \<open>undo\<close>, \<open>redo\<close>, \<open>clearHistory\<close>, \<open>revertToChange\<close> (when it does not
  throw; when it throws the state is untouched) and \<open>revertAllChanges\<close> all preserve it and
  leave the capacity as it is.
\<close>

theorem tracker_invariant_preserved:
  assumes "1 \<le> maxUndoSteps t" and "tracker_inv t"
  shows "tracker_inv (new_ChangeTracker (maxUndoSteps t) :: 'a ChangeTracker)
       \<and> tracker_inv (recordChange t i n ty e s p q d)
       \<and> tracker_inv (snd (undo t))
       \<and> tracker_inv (snd (redo t))
       \<and> tracker_inv (clearHistory t)
       \<and> (\<forall>r t'. revertToChange t k = Inr (r, t') \<longrightarrow> tracker_inv t')
       \<and> tracker_inv (snd (revertAllChanges t))
       \<and> maxUndoSteps (recordChange t i n ty e s p q d) = maxUndoSteps t
       \<and> maxUndoSteps (snd (undo t)) = maxUndoSteps t
       \<and> maxUndoSteps (snd (redo t)) = maxUndoSteps t
       \<and> maxUndoSteps (clearHistory t) = maxUndoSteps t
       \<and> (\<forall>r t'. revertToChange t k = Inr (r, t') \<longrightarrow> maxUndoSteps t' = maxUndoSteps t)
       \<and> maxUndoSteps (snd (revertAllChanges t)) = maxUndoSteps t"
proof -
  from assms(2) have ok: "cursor_ok t" and le: "int (length (changes t)) \<le> maxUndoSteps t"
    by (simp_all add: tracker_inv_def)
  have a: "tracker_inv (new_ChangeTracker (maxUndoSteps t) :: 'a ChangeTracker)"
    using assms(1) by (simp add: tracker_inv_def cursor_ok_def new_ChangeTracker_def)
  have b: "tracker_inv (recordChange t i n ty e s p q d)"
    using recordChange_cursor_ok [OF ok] recordChange_length_le [OF le ok]
    by (simp add: tracker_inv_def)
  have c: "tracker_inv (snd (undo t))"
    using undo_cursor_ok [OF ok] le by (simp add: tracker_inv_def undo_def)
  have c': "tracker_inv (snd (redo t))"
    using redo_cursor_ok [OF ok] le by (simp add: tracker_inv_def redo_def)
  have f: "tracker_inv (clearHistory t)"
    using assms(1) by (simp add: tracker_inv_def cursor_ok_def clearHistory_def)
  have g: "\<forall>r t'. revertToChange t k = Inr (r, t') \<longrightarrow> tracker_inv t'"
    using le by (auto simp: revertToChange_def tracker_inv_def cursor_ok_def split: if_splits)
  have h: "tracker_inv (snd (revertAllChanges t))"
    using f by (simp add: revertAllChanges_def)
  have m: "maxUndoSteps (snd (undo t)) = maxUndoSteps t"
    "maxUndoSteps (snd (redo t)) = maxUndoSteps t"
    "maxUndoSteps (clearHistory t) = maxUndoSteps t"
    "\<forall>r t'. revertToChange t k = Inr (r, t') \<longrightarrow> maxUndoSteps t' = maxUndoSteps t"
    "maxUndoSteps (snd (revertAllChanges t)) = maxUndoSteps t"
    by (auto simp: undo_def redo_def clearHistory_def revertToChange_def revertAllChanges_def
        split: if_splits)
  show ?thesis using a b c c' f g h m by simp
qed

theorem tracker_invariant_preserved_witness:
  "(1::int) \<le> 2
   \<and> tracker_inv \<lparr>changes = [sample_change 10, sample_change 11], maxUndoSteps = 2, currentIndex = 0\<rparr>
   \<and> tracker_inv (record_one
        \<lparr>changes = [sample_change 10, sample_change 11], maxUndoSteps = 2, currentIndex = 0\<rparr>
        (sample_change 12))
   \<and> revertToChange
        \<lparr>changes = [sample_change 10, sample_change 11], maxUndoSteps = 2, currentIndex = 0\<rparr> 1
      = Inr ([], \<lparr>changes = [sample_change 10, sample_change 11], maxUndoSteps = 2, currentIndex = 1\<rparr>)
   \<and> tracker_inv \<lparr>changes = [sample_change 10, sample_change 11], maxUndoSteps = 2, currentIndex = 1\<rparr>"
proof -
  let ?t = "\<lparr>changes = [sample_change 10, sample_change 11], maxUndoSteps = 2, currentIndex = 0\<rparr>"
  have c: "1 \<le> maxUndoSteps ?t" by simp
  have inv: "tracker_inv ?t" by (simp add: tracker_inv_def cursor_ok_def)
  have r: "revertToChange ?t 1
      = Inr ([], \<lparr>changes = [sample_change 10, sample_change 11], maxUndoSteps = 2, currentIndex = 1\<rparr>)"
    by (simp add: revertToChange_def js_slice_from_def js_rel_index_def)
  have "tracker_inv (recordChange ?t (cid (sample_change 12)) (timestamp (sample_change 12))
          (ctype (sample_change 12)) (elementId (sample_change 12)) (slideId (sample_change 12))
          (previousState (sample_change 12)) (newState (sample_change 12))
          (description (sample_change 12)))"
    and "\<forall>r t'. revertToChange ?t 1 = Inr (r, t') \<longrightarrow> tracker_inv t'"
    using tracker_invariant_preserved [OF c inv] by blast+
  then show ?thesis using inv r by (simp add: record_one_def)
qed

section \<open>Decoding the sample containers\<close>

lemmas js_defs = startsWith_def trim_def is_whitespace_def js_prop_def js_prop0_def attrs_of_def
  js_attr_def truthy_def truthy_opt_def nonempty_def js_to_string_def or_empty_def opt_attr_def
  opt_prop0_def strict_attr_def int_to_string_def digit_char_def parseInt_def digit_value_def
  emu_to_points_def

lemmas conv_defs = List.map_filter_def prototype_keys_def trim_def is_whitespace_def

lemma spPr_dom_shape [simp]:
  "is_element_node spPr_dom" "\<not> is_text_node spPr_dom" "tagName spPr_dom = ''p:spPr''"
  by (simp_all add: spPr_dom_def)

lemma run_dom_shape [simp]:
  "is_element_node (run_dom t)" "\<not> is_text_node (run_dom t)" "tagName (run_dom t) = ''a:r''"
  by (simp_all add: run_dom_def)

lemma txBody_dom_shape [simp]:
  "is_element_node (txBody_dom ts)" "\<not> is_text_node (txBody_dom ts)"
  "tagName (txBody_dom ts) = ''p:txBody''"
  by (simp_all add: txBody_dom_def)

lemma txBox_dom_shape [simp]:
  "is_element_node (txBox_dom ts)" "\<not> is_text_node (txBox_dom ts)"
  "tagName (txBox_dom ts) = ''p:txBox''"
  by (simp_all add: txBox_dom_def)

lemma sp_dom_shape [simp]:
  "is_element_node (sp_dom t)" "\<not> is_text_node (sp_dom t)" "tagName (sp_dom t) = ''p:sp''"
  by (simp_all add: sp_dom_def)

lemma pic_dom_shape [simp]:
  "is_element_node (pic_dom d)" "\<not> is_text_node (pic_dom d)" "tagName (pic_dom d) = ''p:pic''"
  by (simp_all add: pic_dom_def)

lemma spPr_conv [simp]: "processNode spPr_dom = Some spPr_obj" "\<not> node_throws spPr_dom"
  by (simp_all add: spPr_dom_def spPr_obj_def conv_defs)

lemma run_conv [simp]:
  "processNode (run_dom ''Hello'') = Some (run_obj ''Hello'')"
  "processNode (run_dom ''World'') = Some (run_obj ''World'')"
  "processNode (run_dom ''first'') = Some (run_obj ''first'')"
  "processNode (run_dom ''third'') = Some (run_obj ''third'')"
  "\<not> node_throws (run_dom t)"
  by (simp_all add: run_dom_def run_obj_def conv_defs)

lemma txBody_conv [simp]:
  "processNode (txBody_dom [''Hello'']) = Some (txBody_obj [''Hello''])"
  "processNode (txBody_dom [''Hello'', ''World'']) = Some (txBody_obj [''Hello'', ''World''])"
  "processNode (txBody_dom [''first'']) = Some (txBody_obj [''first''])"
  "processNode (txBody_dom [''third'']) = Some (txBody_obj [''third''])"
  by (simp_all add: txBody_dom_def txBody_obj_def conv_defs)

lemma txBody_no_throw [simp]: "\<not> node_throws (txBody_dom ts)"
  by (simp add: txBody_dom_def conv_defs list_ex_iff)

lemma txBox_conv [simp]:
  "processNode (txBox_dom [''Hello'']) = Some (txBox_obj [''Hello''])"
  "processNode (txBox_dom [''Hello'', ''World'']) = Some (txBox_obj [''Hello'', ''World''])"
  "\<not> node_throws (txBox_dom ts)"
  by (simp_all add: txBox_dom_def txBox_obj_def conv_defs)

lemma sp_conv [simp]:
  "processNode (sp_dom ''first'') = Some (sp_obj ''first'')"
  "processNode (sp_dom ''third'') = Some (sp_obj ''third'')"
  "\<not> node_throws (sp_dom t)"
  by (simp_all add: sp_dom_def sp_obj_def conv_defs)

lemma pic_conv [simp]:
  "processNode (pic_dom d) = Some (pic_obj d)" "\<not> node_throws (pic_dom d)"
  by (simp_all add: pic_dom_def pic_obj_def conv_defs)

lemma sld_conv:
  "xmlToObject hello_slide_dom = Some (sld_obj [(''p:txBox'', [txBox_obj [''Hello'']])])"
  "xmlToObject two_runs_slide_dom = Some (sld_obj [(''p:txBox'', [txBox_obj [''Hello'', ''World'']])])"
  "xmlToObject mixed_slide_dom
     = Some (sld_obj [(''p:sp'', [sp_obj ''first'', sp_obj ''third'']), (''p:pic'', [pic_obj ''second''])])"
  by (simp_all add: xmlToObject_def hello_slide_dom_def two_runs_slide_dom_def mixed_slide_dom_def
      sld_dom_def sld_obj_def namespaces_def conv_defs)

lemma spPr_geometry [simp]:
  "parsePosition spPr_obj = \<lparr>pos_x = Num 72, pos_y = Num 72\<rparr>"
  "parseSize spPr_obj = \<lparr>sz_width = Num 288, sz_height = Num 72\<rparr>"
  by (simp_all add: parsePosition_def parseSize_def spPr_obj_def js_defs)

lemma run_text_run_obj [simp]: "run_text (run_obj t) = t"
  by (simp add: run_text_def run_obj_def js_defs)

lemma parseTextContent_txBody [simp]: "parseTextContent (txBody_obj ts) = concat ts"
  by (simp add: parseTextContent_def txBody_obj_def js_defs comp_def)

lemma parseElementStyle_sample [simp]:
  "parseElementStyle spPr_obj (Some (txBody_obj ts)) = Some empty_style"
  "parseElementStyle spPr_obj None = Some empty_style"
  by (cases ts; simp add: parseElementStyle_def spPr_obj_def txBody_obj_def run_obj_def js_defs
      empty_style_def)+

lemma index_strings [simp]:
  "int_to_string 0 = ''0''" "int_to_string 1 = ''1''" "int_to_string 2 = ''2''"
  by (simp_all add: int_to_string_def digit_char_def)

lemma parseTextBoxElement_sample:
  "parseTextBoxElement (txBox_obj ts) 0 = Some ((textbox_element ts)\<lparr>el_zIndex := None\<rparr>)"
proof -
  have a: "js_prop0 (txBox_obj ts) ''p:spPr'' = Some spPr_obj"
    "js_prop0 (txBox_obj ts) ''p:txBody'' = Some (txBody_obj ts)"
    by (simp_all add: txBox_obj_def js_defs)
  have b: "truthy_opt (Some spPr_obj)" "truthy_opt (Some (txBody_obj ts))"
    by (simp_all add: spPr_obj_def txBody_obj_def js_defs)
  show ?thesis
    by (simp add: parseTextBoxElement_def textbox_element_def a b)
qed

lemma parseShapeElement_sample:
  "parseShapeElement (sp_obj t) k =
     Some \<lparr>el_id = ''shape-'' @ int_to_string (int k), el_type = ShapeT,
           el_position = \<lparr>pos_x = Num 72, pos_y = Num 72\<rparr>,
           el_size = \<lparr>sz_width = Num 288, sz_height = Num 72\<rparr>,
           el_content = empty_content\<lparr>c_shapeType := Some ''rect'', c_text := Some t\<rparr>,
           el_style = Some empty_style, el_originalData = Some (sp_obj t), el_zIndex = None\<rparr>"
proof -
  have a: "js_prop0 (sp_obj t) ''p:spPr'' = Some spPr_obj"
    "js_prop0 (sp_obj t) ''p:txBody'' = Some (txBody_obj [t])"
    by (simp_all add: sp_obj_def js_defs)
  have b: "truthy_opt (Some spPr_obj)" "truthy_opt (Some (txBody_obj [t]))"
    by (simp_all add: spPr_obj_def txBody_obj_def js_defs)
  have c: "strict_attr (js_prop0 spPr_obj ''a:prstGeom'') ''prst'' = Some None"
    by (simp add: spPr_obj_def js_defs)
  show ?thesis
    by (simp add: parseShapeElement_def a b c nonempty_def)
qed

lemma parsePictureElement_sample:
  "parsePictureElement (pic_obj d) k =
     Some \<lparr>el_id = ''picture-'' @ int_to_string (int k), el_type = ImageT,
           el_position = \<lparr>pos_x = Num 72, pos_y = Num 72\<rparr>,
           el_size = \<lparr>sz_width = Num 288, sz_height = Num 72\<rparr>,
           el_content = empty_content\<lparr>c_imageId := Some ''rId2'', c_imagePath := Some [],
                                      c_altText := Some d\<rparr>,
           el_style = Some empty_style, el_originalData = Some (pic_obj d), el_zIndex = None\<rparr>"
proof -
  have a: "js_prop0 (pic_obj d) ''p:spPr'' = Some spPr_obj"
    "truthy_opt (js_prop0 (pic_obj d) ''p:blipFill'')"
    "opt_attr (opt_prop0 (js_prop0 (pic_obj d) ''p:blipFill'') ''a:blip'') ''r:embed'' = Some ''rId2''"
    "strict_attr (opt_prop0 (js_prop0 (pic_obj d) ''p:nvPicPr'') ''p:cNvPr'') ''descr'' = Some (Some d)"
    by (simp_all add: pic_obj_def js_defs)
  have b: "truthy_opt (Some spPr_obj)"
    by (simp add: spPr_obj_def js_defs)
  show ?thesis
    by (simp add: parsePictureElement_def a b nonempty_def)
qed

lemma sample_zip_file:
  "zip_file (sample_zip xml) path =
     (if path = ''ppt/slides/slide1.xml'' then Some xml
      else if path = ''ppt/_rels/presentation.xml.rels'' then Some presentation_rels_xml
      else None)"
  by (simp add: sample_zip_def zip_file_def)

lemma sample_xml_nonempty:
  "hello_slide_xml \<noteq> []" "two_runs_slide_xml \<noteq> []" "mixed_slide_xml \<noteq> []"
  "presentation_rels_xml \<noteq> []"
  by (simp_all add: hello_slide_xml_def two_runs_slide_xml_def mixed_slide_xml_def sld_open_def
      presentation_rels_xml_def)

lemma sample_zip_text:
  "xml \<noteq> [] \<Longrightarrow> zip_text sample_runtime (sample_zip xml) ''ppt/slides/slide1.xml'' = Some xml"
  "zip_text sample_runtime (sample_zip xml) ''ppt/_rels/presentation.xml.rels'' = Some presentation_rels_xml"
  "zip_text sample_runtime (sample_zip xml) ''ppt/slides/_rels/slide1.xml.rels'' = None"
  "zip_text sample_runtime (sample_zip xml) ''ppt/slides/slide1.xml.rels'' = None"
  "zip_text sample_runtime (sample_zip xml) ''docProps/app.xml'' = None"
  "zip_text sample_runtime (sample_zip xml) ''docProps/core.xml'' = None"
  "zip_text sample_runtime (sample_zip xml) ''ppt/theme/theme1.xml'' = None"
  using sample_xml_nonempty(4)
  by (simp_all add: zip_text_def sample_zip_file nonempty_def sample_runtime_def)

lemma sample_parse:
  "parseXML sample_runtime presentation_rels_xml = presentation_rels_dom"
  "parseXML sample_runtime hello_slide_xml = hello_slide_dom"
  "parseXML sample_runtime two_runs_slide_xml = two_runs_slide_dom"
  "parseXML sample_runtime mixed_slide_xml = mixed_slide_dom"
  by (simp_all add: sample_runtime_def sample_parseXML_def presentation_rels_xml_def
      hello_slide_xml_def two_runs_slide_xml_def mixed_slide_xml_def sld_open_def sld_close_def
      txBox_xml_def sp_xml_def pic_xml_def spPr_xml_def txBody_xml_def run_xml_def)


lemma rel_paths:
  "replace_str ''.xml'' ''.xml.rels''
     (replace_str ''ppt/slides/'' ''ppt/slides/_rels/'' ''ppt/slides/slide1.xml'')
   = ''ppt/slides/_rels/slide1.xml.rels''"
  "replace_str ''.xml'' ''.xml.rels'' ''ppt/slides/slide1.xml'' = ''ppt/slides/slide1.xml.rels''"
  by (simp_all add: startsWith_def)

lemma sld_obj_tree:
  "js_prop0 (sld_obj groups) ''p:cSld'' = Some (JObj None [(''p:spTree'', [JObj None groups])])"
  "truthy (JObj None [(''p:spTree'', [JObj None groups])])"
  "js_prop0 (JObj None [(''p:spTree'', [JObj None groups])]) ''p:sldLayoutId'' = None"
  "js_prop0 (JObj None [(''p:spTree'', [JObj None groups])]) ''p:spTree'' = Some (JObj None groups)"
  "truthy_opt (Some (JObj None groups))"
  by (simp_all add: sld_obj_def js_defs)


lemma parseSlide_sample:
  assumes "zip_text rt z ''ppt/slides/slide1.xml'' = Some xml"
    and "zip_text rt z ''ppt/slides/_rels/slide1.xml.rels'' = None"
    and "zip_text rt z ''ppt/slides/slide1.xml.rels'' = None"
    and "xmlToObject (parseXML rt xml) = Some (sld_obj groups)"
  shows "parseSlide rt z ''ppt/slides/slide1.xml'' 1 =
     Some \<lparr>s_id = ''slide-1'', slideNumber = 1, elements = spTree_elements (JObj None groups),
           background = None, layout = Some ''default'', imageDataResolved = False\<rparr>"
  unfolding parseSlide_def rel_paths
  by (simp add: assms sld_obj_tree opt_attr_def nonempty_def del: replace_str.simps)

lemma textbox_elements:
  "spTree_elements (JObj None [(''p:txBox'', [txBox_obj ts])]) = [textbox_element ts]"
  by (simp add: spTree_elements_def startsWith_def parse_node_def parseTextBoxElement_sample
      textbox_element_def)

lemma mixed_elements:
  "map (\<lambda>e. (el_id e, el_type e, el_zIndex e, c_text (el_content e), c_altText (el_content e)))
     (spTree_elements (JObj None [(''p:sp'', [sp_obj ''first'', sp_obj ''third'']),
                                  (''p:pic'', [pic_obj ''second''])]))
   = [(''shape-0'', ShapeT, Some 0, Some ''first'', None),
      (''shape-1'', ShapeT, Some 1, Some ''third'', None),
      (''picture-2'', ImageT, Some 2, None, Some ''second'')]"
  by (simp add: spTree_elements_def startsWith_def parse_node_def parseShapeElement_sample
      parsePictureElement_sample empty_content_def)

lemma rels_conv:
  "xmlToObject presentation_rels_dom =
     Some (JObj (Some [(''xmlns'', ''http://schemas.openxmlformats.org/package/2006/relationships'')])
       [(''Relationship'',
         [JObj (Some [(''Id'', ''rId1''),
             (''Type'', ''http://schemas.openxmlformats.org/officeDocument/2006/relationships/slide''),
             (''Target'', ''slides/slide1.xml'')]) []])])"
  by (simp add: xmlToObject_def presentation_rels_dom_def conv_defs)

lemma parsePPTX_sample:
  assumes "xml \<noteq> []" and "xmlToObject (parseXML sample_runtime xml) = Some (sld_obj groups)"
  shows "parsePPTX sample_runtime (sample_zip xml) new_parser_document =
     \<lparr>slides = [\<lparr>s_id = ''slide-1'', slideNumber = 1,
                  elements = spTree_elements (JObj None groups),
                  background = None, layout = Some ''default'', imageDataResolved = False\<rparr>],
      metadata = \<lparr>title = [], author = [], subject = [], md_keywords = [],
                   created = DateNow, modified = DateNow\<rparr>,
      theme = None\<rparr>"
proof -
  note s = parseSlide_sample [OF sample_zip_text(1) [OF assms(1)] sample_zip_text(3,4) assms(2)]
  have p: "parsePresentationProperties sample_runtime (sample_zip xml) new_parser_document
           = new_parser_document"
    by (simp add: parsePresentationProperties_def sample_zip_text)
  have sl: "parseSlides sample_runtime (sample_zip xml) new_parser_document =
     \<lparr>slides = [\<lparr>s_id = ''slide-1'', slideNumber = 1,
                  elements = spTree_elements (JObj None groups),
                  background = None, layout = Some ''default'', imageDataResolved = False\<rparr>],
      metadata = \<lparr>title = [], author = [], subject = [], md_keywords = [],
                   created = DateNow, modified = DateNow\<rparr>,
      theme = None\<rparr>"
    by (simp add: parseSlides_def sample_zip_text sample_parse rels_conv js_defs is_slide_rel_def
        s new_parser_document_def)
  show ?thesis
    by (simp add: parsePPTX_def p sl parseTheme_def sample_zip_text)
qed

lemma parsePPTX_textbox:
  assumes "xml \<noteq> []" and "xmlToObject (parseXML sample_runtime xml)
             = Some (sld_obj [(''p:txBox'', [txBox_obj ts])])"
  shows "parsePPTX sample_runtime (sample_zip xml) new_parser_document = textbox_document ts"
  by (simp add: parsePPTX_sample [OF assms] textbox_elements textbox_document_def)

lemma hello_parsed:
  "parsePPTX sample_runtime hello_zip new_parser_document = textbox_document [''Hello'']"
  unfolding hello_zip_def
  by (rule parsePPTX_textbox) (simp_all add: sample_xml_nonempty sample_parse sld_conv)

lemma two_runs_parsed:
  "parsePPTX sample_runtime two_runs_zip new_parser_document = textbox_document [''Hello'', ''World'']"
  unfolding two_runs_zip_def
  by (rule parsePPTX_textbox) (simp_all add: sample_xml_nonempty sample_parse sld_conv)



lemma mixed_slide_parsed:
  "parseSlide sample_runtime mixed_zip ''ppt/slides/slide1.xml'' 1 =
     Some \<lparr>s_id = ''slide-1'', slideNumber = 1,
           elements = spTree_elements (JObj None [(''p:sp'', [sp_obj ''first'', sp_obj ''third'']),
                                                  (''p:pic'', [pic_obj ''second''])]),
           background = None, layout = Some ''default'', imageDataResolved = False\<rparr>"
  unfolding mixed_zip_def
  by (rule parseSlide_sample [OF sample_zip_text(1) [OF sample_xml_nonempty(3)] sample_zip_text(3,4)])
    (simp only: sample_parse sld_conv)

lemma mixed_parsed:
  "parsePPTX sample_runtime mixed_zip new_parser_document =
     \<lparr>slides = [\<lparr>s_id = ''slide-1'', slideNumber = 1,
                  elements = spTree_elements (JObj None [(''p:sp'', [sp_obj ''first'', sp_obj ''third'']),
                                                         (''p:pic'', [pic_obj ''second''])]),
                  background = None, layout = Some ''default'', imageDataResolved = False\<rparr>],
      metadata = \<lparr>title = [], author = [], subject = [], md_keywords = [],
                   created = DateNow, modified = DateNow\<rparr>,
      theme = None\<rparr>"
  unfolding mixed_zip_def
  by (rule parsePPTX_sample [OF sample_xml_nonempty(3)]) (simp only: sample_parse sld_conv)

section \<open>Properties of the slide decoder\<close>

text \<open>
  C3.  The third sample slide has the shape tree children shape, picture, shape in document
  order.  \<open>xmlToObject\<close> groups the children by tag name before \<open>parseSlide\<close> sees them, so
  the decoder walks both shapes first and the picture last: the shape that is third in the
  document gets z-order 1 and the picture, second in the document, gets z-order 2.
\<close>

theorem decoder_groups_children_by_tag:
  "map tagName [sp_dom ''first'', pic_dom ''second'', sp_dom ''third''] = [''p:sp'', ''p:pic'', ''p:sp'']
   \<and> map_option
         (\<lambda>s. map (\<lambda>e. (el_id e, el_type e, el_zIndex e, c_text (el_content e),
                         c_altText (el_content e))) (elements s))
         (parseSlide sample_runtime mixed_zip ''ppt/slides/slide1.xml'' 1)
       = Some [(''shape-0'', ShapeT, Some 0, Some ''first'', None),
               (''shape-1'', ShapeT, Some 1, Some ''third'', None),
               (''picture-2'', ImageT, Some 2, None, Some ''second'')]"
  by (simp add: mixed_slide_parsed mixed_elements)

text \<open>
  C9 as stated fails for a target that is unprefixed and already starts with \<open>ppt/\<close>: the
  code leaves it as it is instead of resolving it against the package root.
\<close>

theorem absoluteImagePath_keeps_ppt_prefix:
  "absoluteImagePath ''ppt/media/image1.png'' = ''ppt/media/image1.png''
   \<and> spec_absoluteImagePath ''ppt/media/image1.png'' = ''ppt/ppt/media/image1.png''
   \<and> absoluteImagePath ''ppt/media/image1.png'' \<noteq> spec_absoluteImagePath ''ppt/media/image1.png''"
  by (simp add: absoluteImagePath_def spec_absoluteImagePath_def startsWith_def)

text \<open>
  C9, amended.  A target prefixed \<open>../\<close> resolves against the package root \<open>ppt/\<close>; one
  prefixed \<open>./\<close> resolves relative to the slides folder \<open>ppt/slides/\<close>; an unprefixed
  target resolves relative to \<open>ppt/\<close> unless it already starts with \<open>ppt/\<close>, in which case it
  is the container path itself.
\<close>

theorem absoluteImagePath_rule:
  "absoluteImagePath (''../'' @ rest) = ''ppt/'' @ rest
   \<and> absoluteImagePath (''./'' @ rest) = ''ppt/slides/'' @ rest
   \<and> (\<not> startsWith targetPath ''../'' \<and> \<not> startsWith targetPath ''./'' \<longrightarrow>
        absoluteImagePath targetPath
          = (if startsWith targetPath ''ppt/'' then targetPath else ''ppt/'' @ targetPath))"
  by (simp add: absoluteImagePath_def startsWith_def)

theorem absoluteImagePath_rule_witness:
  "absoluteImagePath ''../media/image1.png'' = ''ppt/media/image1.png''
   \<and> absoluteImagePath ''./media/image1.png'' = ''ppt/slides/media/image1.png''
   \<and> \<not> startsWith ''media/image1.png'' ''../'' \<and> \<not> startsWith ''media/image1.png'' ''./''
   \<and> absoluteImagePath ''media/image1.png'' = ''ppt/media/image1.png''"
  using absoluteImagePath_rule [of "''media/image1.png''" "''media/image1.png''"]
  by (simp add: startsWith_def)

section \<open>Properties of the editor\<close>

lemmas store_defs = store_document_def store_slide_def store_element_def new_position_def
  new_size_def new_content_def new_style_def new_elem_def empty_store_def

lemma findIndex_None_iff: "findIndex P vs = None \<longleftrightarrow> List.find P vs = None"
  by (induction vs) auto

text \<open>
  C1.  The scenario of the claim, run on the code: load the one-slide document whose text
  box reads \<open>Hello\<close> and call \<open>updateText(id, "World")\<close>.  The history has one record of kind
  \<open>update\<close>, but the snapshot it holds as \<open>previousState\<close> is a shallow copy that shares the
  \<open>content\<close> object with the live element: its text reads \<open>World\<close>, \<open>undo\<close> returns true and
  the element still reads \<open>World\<close>.
\<close>

theorem updateText_snapshot_shares_content:
  "(let ed = updateText hello_editor ''change-1'' 1 ''textbox-0'' ''World'';
        hist = getChangeHistory (changeTracker ed)
    in element_text hello_editor ''textbox-0'' = Some ''Hello''
     \<and> length hist = 1
     \<and> map ctype hist = [Update]
     \<and> map (\<lambda>c. snapshot_text ed (previousState c)) hist = [Some ''World'']
     \<and> map (\<lambda>c. snapshot_text ed (newState c)) hist = [Some ''World'']
     \<and> fst (editor_undo ed) = True
     \<and> element_text (snd (editor_undo ed)) ''textbox-0'' = Some ''World'')"
  by (simp add: hello_editor_def hello_parsed loadPPTX_def new_PPTXEditor_def store_defs no_options_def
      textbox_document_def textbox_element_def updateState_def updateText_def getCurrentSlide_def
      js_index_def find_element_def shallow_copy_def editor_recordChange_def or_default_def
      recordChange_def js_slice_def js_rel_index_def new_ChangeTracker_def clearHistory_def
      getChangeHistory_def canUndo_def canRedo_def snapshot_text_def editor_undo_def undo_def
      revertChange_def element_text_def empty_content_def
      Let_def split_def)

text \<open>
  C4 as stated fails for the two \<open>add\<close> methods: with no document loaded
  \<open>addTextElement\<close> throws.
\<close>

theorem addTextElement_throws_without_document:
  "addTextElement (new_PPTXEditor no_options) ''text-1'' ''change-1'' 1 ''Hi''
     (Num 0) (Num 0) (Num 100) (Num 20) = Inl (Error ''No document loaded'')"
  by (simp add: addTextElement_def new_PPTXEditor_def)

text \<open>
  C4, amended.  When the document, the current slide or the target element is missing,
  \<open>updateText\<close>, \<open>updateElementPosition\<close>, \<open>updateElementSize\<close>, \<open>updateElementStyle\<close> and
  \<open>deleteElement\<close> return with the editor (document, store, selection and change history)
  exactly as it was.  The two \<open>add\<close> methods need no target element; they throw
  \<open>No document loaded\<close> when there is no document and \<open>No current slide\<close> when there is no
  current slide, and have changed nothing when they throw.
\<close>

theorem missing_target_is_tolerated:
  assumes "target_missing ed eId"
  shows "updateText ed newId now eId txt = ed
       \<and> updateElementPosition numToString ed newId now eId px py = ed
       \<and> updateElementSize numToString ed newId now eId w hgt = ed
       \<and> updateElementStyle ed newId now eId sty = ed
       \<and> deleteElement ed newId now eId = ed
       \<and> (document ed = None \<longrightarrow>
            addTextElement ed elemId newId now txt px py w hgt = Inl (Error ''No document loaded'')
          \<and> addImageElement ed elemId newId now url px py w hgt = Inl (Error ''No document loaded''))
       \<and> (document ed \<noteq> None \<and> getCurrentSlide ed = None \<longrightarrow>
            addTextElement ed elemId newId now txt px py w hgt = Inl (Error ''No current slide'')
          \<and> addImageElement ed elemId newId now url px py w hgt = Inl (Error ''No current slide''))"
proof -
  have upd: "updateText ed newId now eId txt = ed
       \<and> updateElementPosition numToString ed newId now eId px py = ed
       \<and> updateElementSize numToString ed newId now eId w hgt = ed
       \<and> updateElementStyle ed newId now eId sty = ed"
    using assms
    by (auto simp: target_missing_def updateText_def updateElementPosition_def
        updateElementSize_def updateElementStyle_def split: option.splits)
  have del: "deleteElement ed newId now eId = ed"
    using assms
    by (auto simp: target_missing_def deleteElement_def find_element_def
        findIndex_None_iff [symmetric] split: option.splits)
  have add1: "document ed = None \<longrightarrow>
            addTextElement ed elemId newId now txt px py w hgt = Inl (Error ''No document loaded'')
          \<and> addImageElement ed elemId newId now url px py w hgt = Inl (Error ''No document loaded'')"
    by (simp add: addTextElement_def addImageElement_def)
  have add2: "document ed \<noteq> None \<and> getCurrentSlide ed = None \<longrightarrow>
            addTextElement ed elemId newId now txt px py w hgt = Inl (Error ''No current slide'')
          \<and> addImageElement ed elemId newId now url px py w hgt = Inl (Error ''No current slide'')"
    by (auto simp: addTextElement_def addImageElement_def)
  show ?thesis using upd del add1 add2 by blast
qed

theorem missing_target_is_tolerated_witness:
  "target_missing hello_editor ''shape-7''
   \<and> updateText hello_editor ''change-1'' 1 ''shape-7'' ''World'' = hello_editor
   \<and> deleteElement hello_editor ''change-1'' 1 ''shape-7'' = hello_editor
   \<and> target_missing (new_PPTXEditor no_options) ''textbox-0''
   \<and> updateElementStyle (new_PPTXEditor no_options) ''change-1'' 1 ''textbox-0'' empty_style
       = new_PPTXEditor no_options
   \<and> addImageElement (new_PPTXEditor no_options) ''image-1'' ''change-1'' 1 ''a.png''
       (Num 0) (Num 0) (Num 10) (Num 10) = Inl (Error ''No document loaded'')
   \<and> target_missing (loadPPTX (new_PPTXEditor no_options) Map.empty new_parser_document)
        ''textbox-0''
   \<and> addTextElement (loadPPTX (new_PPTXEditor no_options) Map.empty new_parser_document)
        ''text-1'' ''change-1'' 1 ''Hi'' (Num 0) (Num 0) (Num 100) (Num 20)
       = Inl (Error ''No current slide'')"
proof -
  let ?e = "loadPPTX (new_PPTXEditor no_options) Map.empty new_parser_document"
  have e: "document ?e \<noteq> None" "getCurrentSlide ?e = None"
    by (simp_all add: loadPPTX_def new_PPTXEditor_def store_document_def new_parser_document_def
        updateState_def getCurrentSlide_def js_index_def)
  have m3: "target_missing ?e ''textbox-0''"
    using e by (auto simp: target_missing_def split: option.splits)
  have m1: "target_missing hello_editor ''shape-7''"
    by (simp add: target_missing_def hello_editor_def hello_parsed loadPPTX_def new_PPTXEditor_def
        store_defs textbox_document_def textbox_element_def updateState_def getCurrentSlide_def js_index_def
        find_element_def Let_def split_def)
  have m2: "target_missing (new_PPTXEditor no_options) ''textbox-0''"
    by (simp add: target_missing_def new_PPTXEditor_def)
  have d: "document (new_PPTXEditor no_options) = None"
    by (simp add: new_PPTXEditor_def)
  show ?thesis
    using missing_target_is_tolerated [OF m1] missing_target_is_tolerated [OF m2]
      missing_target_is_tolerated [OF m3] m1 m2 m3 d e
    by simp
qed

section \<open>Properties of the re-encoder\<close>

lemma get_substitution_no_dollar:
  "CHR ''$'' \<notin> set template \<Longrightarrow> get_substitution m b a template = template"
  by (induction m b a template rule: get_substitution.induct) auto

lemma match_here_needs_opening:
  "\<not> startsWith s (open_lit p) \<Longrightarrow> match_here p s = None"
  by (simp add: match_here_def)

lemma no_tag_across_boundary:
  assumes "\<not> startsWith (c # cs) ''<a:t''"
  shows "\<not> startsWith (c # cs @ CHR ''<'' # r) ''<a:t''"
proof (cases "length cs \<ge> 3")
  case True
  then have "take 4 (c # cs @ CHR ''<'' # r) = take 4 (c # cs)"
    by (cases cs; cases "tl cs"; cases "tl (tl cs)") auto
  with assms show ?thesis by (simp add: startsWith_def)
next
  case False
  then consider "cs = []" | x where "cs = [x]" | x y where "cs = [x, y]"
    by (cases cs; cases "tl cs"; cases "tl (tl cs)") auto
  then show ?thesis
    by cases (auto simp: startsWith_def)
qed

lemma replace_all_skips_plain:
  "\<not> js_includes plain ''<a:t'' \<Longrightarrow>
   replace_all_from textPattern t pre (plain @ CHR ''<'' # r)
     = plain @ replace_all_from textPattern t (pre @ plain) (CHR ''<'' # r)"
proof (induction plain arbitrary: pre)
  case Nil
  then show ?case by simp
next
  case (Cons c cs)
  from Cons.prems have a: "\<not> startsWith (c # cs) ''<a:t''" and b: "\<not> js_includes cs ''<a:t''"
    by simp_all
  have "match_here textPattern (c # cs @ CHR ''<'' # r) = None"
    using no_tag_across_boundary [OF a, of r]
    by (intro match_here_needs_opening) (simp add: textPattern_def)
  then show ?case
    using Cons.IH [OF b, of "pre @ [c]"] by simp
qed

lemma replace_all_keeps_tail:
  "\<not> js_includes tail ''<a:t'' \<Longrightarrow> replace_all_from textPattern t pre tail = tail"
proof (induction tail arbitrary: pre)
  case Nil
  then show ?case by simp
next
  case (Cons c cs)
  from Cons.prems have a: "\<not> startsWith (c # cs) ''<a:t''" and b: "\<not> js_includes cs ''<a:t''"
    by simp_all
  have "match_here textPattern (c # cs) = None"
    using a by (intro match_here_needs_opening) (simp add: textPattern_def)
  then show ?case
    using Cons.IH [OF b, of "pre @ [c]"] by simp
qed

lemma after_gt_attrs: "CHR ''>'' \<notin> set attrs \<Longrightarrow> after_gt (attrs @ CHR ''>'' # s) = Some s"
  by (induction attrs) auto

lemma lazy_until_body:
  "CHR ''<'' \<notin> set body \<Longrightarrow> \<not> list_ex is_line_terminator body \<Longrightarrow>
   lazy_until ''</a:t>'' (body @ ''</a:t>'' @ s) = Some (length body + 6)"
  by (induction body) (auto simp: startsWith_def)

lemma match_here_run:
  assumes "CHR ''>'' \<notin> set attrs" "CHR ''<'' \<notin> set body" "\<not> list_ex is_line_terminator body"
  shows "match_here textPattern (''<a:t'' @ attrs @ ''>'' @ body @ ''</a:t>'' @ s)
         = Some (length (''<a:t'' @ attrs @ ''>'' @ body @ ''</a:t>''))"
proof -
  have "after_gt (attrs @ CHR ''>'' # body @ ''</a:t>'' @ s) = Some (body @ ''</a:t>'' @ s)"
    using assms(1) by (rule after_gt_attrs)
  then show ?thesis
    using lazy_until_body [OF assms(2,3), of s]
    by (simp add: match_here_def textPattern_def startsWith_def)
qed

lemma replace_all_from_at_match:
  assumes "match_here p (m @ s) = Some (length m)" and "m \<noteq> []" and "CHR ''$'' \<notin> set t"
  shows "replace_all_from p t pre (m @ s) = t @ replace_all_from p t (pre @ m) s"
proof -
  obtain c cs where cs: "m @ s = c # cs"
    using assms(2) by (cases m) auto
  have n: "length m \<noteq> 0" using assms(2) by simp
  have "replace_all_from p t pre (c # cs)
        = get_substitution (take (length m) (c # cs)) pre (drop (length m) (c # cs)) t
          @ replace_all_from p t (pre @ take (length m) (c # cs)) (drop (length m) (c # cs))"
    using assms(1) n unfolding cs by simp
  then show ?thesis
    unfolding cs [symmetric] by (simp add: get_substitution_no_dollar [OF assms(3)])
qed

lemma replace_all_replaces_run:
  assumes "CHR ''>'' \<notin> set attrs" "CHR ''<'' \<notin> set body" "\<not> list_ex is_line_terminator body"
    and "CHR ''$'' \<notin> set t"
  shows "replace_all_from textPattern t pre ((''<a:t'' @ attrs @ ''>'' @ body @ ''</a:t>'') @ s)
         = t @ replace_all_from textPattern t (pre @ (''<a:t'' @ attrs @ ''>'' @ body @ ''</a:t>'')) s"
proof (rule replace_all_from_at_match)
  show "match_here textPattern ((''<a:t'' @ attrs @ ''>'' @ body @ ''</a:t>'') @ s)
        = Some (length (''<a:t'' @ attrs @ ''>'' @ body @ ''</a:t>''))"
    using match_here_run [OF assms(1-3), of s] by simp
  show "''<a:t'' @ attrs @ ''>'' @ body @ ''</a:t>'' \<noteq> []" by simp
  show "CHR ''$'' \<notin> set t" by (rule assms(4))
qed

lemma with_text_triple: "with_text txt (plain, attrs, body) = (plain, [], txt)"
  by (simp add: with_text_def)

lemma replace_all_runs:
  assumes "CHR ''$'' \<notin> set txt"
  shows "runs_separable rs tail \<Longrightarrow>
     replace_all_from textPattern (''<a:t>'' @ txt @ ''</a:t>'') pre (xml_with_runs rs tail)
       = xml_with_runs (map (with_text txt) rs) tail"
proof (induction rs arbitrary: pre)
  case Nil
  then show ?case by (simp add: replace_all_keeps_tail)
next
  case (Cons r rs)
  obtain plain attrs body where r: "r = (plain, attrs, body)" by (cases r)
  from Cons.prems r have p: "\<not> js_includes plain ''<a:t''" and a: "CHR ''>'' \<notin> set attrs"
    and b: "CHR ''<'' \<notin> set body" and l: "\<not> list_ex is_line_terminator body"
    and rest: "runs_separable rs tail"
    by simp_all
  have d: "CHR ''$'' \<notin> set (''<a:t>'' @ txt @ ''</a:t>'')"
    using assms by simp
  let ?t = "''<a:t>'' @ txt @ ''</a:t>''"
  let ?run = "''<a:t'' @ attrs @ ''>'' @ body @ ''</a:t>''"
  have x: "xml_with_runs (r # rs) tail = plain @ CHR ''<'' # (''a:t'' @ attrs @ ''>'' @ body @ ''</a:t>'' @ xml_with_runs rs tail)"
    by (simp add: r)
  have y: "CHR ''<'' # (''a:t'' @ attrs @ ''>'' @ body @ ''</a:t>'' @ xml_with_runs rs tail)
           = ?run @ xml_with_runs rs tail"
    by simp
  have "replace_all_from textPattern ?t pre (xml_with_runs (r # rs) tail)
        = plain @ replace_all_from textPattern ?t (pre @ plain) (?run @ xml_with_runs rs tail)"
    unfolding x y [symmetric] by (rule replace_all_skips_plain [OF p])
  also have "replace_all_from textPattern ?t (pre @ plain) (?run @ xml_with_runs rs tail)
        = ?t @ replace_all_from textPattern ?t ((pre @ plain) @ ?run) (xml_with_runs rs tail)"
    by (rule replace_all_replaces_run [OF a b l d])
  also have "replace_all_from textPattern ?t ((pre @ plain) @ ?run) (xml_with_runs rs tail)
        = xml_with_runs (map (with_text txt) rs) tail"
    by (rule Cons.IH [OF rest])
  finally show ?case by (simp add: r with_text_triple)
qed

lemma replace_first_skips_plain:
  "\<not> js_includes plain ''<a:t'' \<Longrightarrow>
   replace_first_from textPattern t pre (plain @ CHR ''<'' # r)
     = plain @ replace_first_from textPattern t (pre @ plain) (CHR ''<'' # r)"
proof (induction plain arbitrary: pre)
  case Nil
  then show ?case by simp
next
  case (Cons c cs)
  from Cons.prems have a: "\<not> startsWith (c # cs) ''<a:t''" and b: "\<not> js_includes cs ''<a:t''"
    by simp_all
  have "match_here textPattern (c # cs @ CHR ''<'' # r) = None"
    using no_tag_across_boundary [OF a, of r]
    by (intro match_here_needs_opening) (simp add: textPattern_def)
  then show ?case
    using Cons.IH [OF b, of "pre @ [c]"] by simp
qed

lemma replace_first_from_at_match:
  assumes "match_here p (m @ s) = Some (length m)" and "m \<noteq> []" and "CHR ''$'' \<notin> set t"
  shows "replace_first_from p t pre (m @ s) = t @ s"
proof -
  obtain c cs where cs: "m @ s = c # cs"
    using assms(2) by (cases m) auto
  have "replace_first_from p t pre (c # cs)
        = get_substitution (take (length m) (c # cs)) pre (drop (length m) (c # cs)) t
          @ drop (length m) (c # cs)"
    using assms(1) unfolding cs by simp
  then show ?thesis
    unfolding cs [symmetric] by (simp add: get_substitution_no_dollar [OF assms(3)])
qed

lemma replace_first_runs:
  assumes "CHR ''$'' \<notin> set txt" and "runs_separable ((plain, attrs, body) # rs) tail"
  shows "replace_first_from textPattern (''<a:t>'' @ txt @ ''</a:t>'') pre
           (xml_with_runs ((plain, attrs, body) # rs) tail)
         = plain @ ''<a:t>'' @ txt @ ''</a:t>'' @ xml_with_runs rs tail"
proof -
  from assms(2) have p: "\<not> js_includes plain ''<a:t''" and a: "CHR ''>'' \<notin> set attrs"
    and b: "CHR ''<'' \<notin> set body" and l: "\<not> list_ex is_line_terminator body"
    by simp_all
  let ?t = "''<a:t>'' @ txt @ ''</a:t>''"
  let ?run = "''<a:t'' @ attrs @ ''>'' @ body @ ''</a:t>''"
  have d: "CHR ''$'' \<notin> set ?t" using assms(1) by simp
  have x: "xml_with_runs ((plain, attrs, body) # rs) tail
           = plain @ CHR ''<'' # (''a:t'' @ attrs @ ''>'' @ body @ ''</a:t>'' @ xml_with_runs rs tail)"
    by simp
  have y: "CHR ''<'' # (''a:t'' @ attrs @ ''>'' @ body @ ''</a:t>'' @ xml_with_runs rs tail)
           = ?run @ xml_with_runs rs tail"
    by simp
  have m: "match_here textPattern (?run @ xml_with_runs rs tail) = Some (length ?run)"
    using match_here_run [OF a b l, of "xml_with_runs rs tail"] by simp
  have "replace_first_from textPattern ?t pre (xml_with_runs ((plain, attrs, body) # rs) tail)
        = plain @ replace_first_from textPattern ?t (pre @ plain) (?run @ xml_with_runs rs tail)"
    unfolding x y [symmetric] by (rule replace_first_skips_plain [OF p])
  also have "replace_first_from textPattern ?t (pre @ plain) (?run @ xml_with_runs rs tail)
        = ?t @ xml_with_runs rs tail"
    by (rule replace_first_from_at_match [OF m _ d]) simp
  finally show ?thesis by simp
qed

lemma updateSlideXML_text_elements:
  "foldl (update_element_xml h) xml els = foldl (updateTextElement h) xml (filter (is_text_element h) els)"
  by (induction els arbitrary: xml)
    (simp_all add: update_element_xml_def is_text_element_def updateImageElement_def
      updateShapeElement_def)

lemma startsWith_length: "startsWith s p \<Longrightarrow> length p \<le> length s"
  by (metis startsWith_def length_take min.cobounded1)

lemma lazy_until_le: "lazy_until cl s = Some k \<Longrightarrow> k \<le> length s"
proof (induction s arbitrary: k)
  case Nil
  then show ?case by (simp split: if_splits)
next
  case (Cons c cs)
  show ?case
  proof (cases "startsWith (c # cs) cl")
    case True
    then show ?thesis using Cons.prems startsWith_length [OF True] by simp
  next
    case False
    then obtain j where "lazy_until cl cs = Some j" "k = Suc j"
      using Cons.prems by (auto split: if_splits)
    then show ?thesis using Cons.IH [of j] by simp
  qed
qed

lemma after_gt_le: "after_gt s = Some r \<Longrightarrow> length r \<le> length s"
  by (induction s) (auto split: if_splits)

lemma match_here_le: "match_here p s = Some n \<Longrightarrow> n \<le> length s"
proof -
  assume m: "match_here p s = Some n"
  then have sw: "startsWith s (open_lit p)"
    by (auto simp: match_here_def split: if_splits)
  let ?s1 = "drop (length (open_lit p)) s"
  from m sw obtain s2 k where s2: "(if any_attributes p then after_gt ?s1 else Some ?s1) = Some s2"
    and k: "lazy_until (close_lit p) s2 = Some k" and n: "n = length s - length s2 + k"
    by (auto simp: match_here_def Let_def split: option.splits)
  have "length s2 \<le> length ?s1"
    using s2 after_gt_le [of ?s1 s2] by (auto split: if_splits)
  then have "length s2 \<le> length s" by simp
  moreover have "k \<le> length s2" using k by (rule lazy_until_le)
  ultimately show ?thesis using n by simp
qed

lemma original_text_push_char:
  "original_text (fst (push_char c r)) (snd (push_char c r)) = c # original_text (fst r) (snd r)"
  by (cases r; cases "fst r") (auto simp: push_char_def)

lemma find_matches_original:
  "original_text (fst (find_matches p s)) (snd (find_matches p s)) = s"
  by (induction p s rule: find_matches.induct)
    (simp_all add: original_text_push_char split: option.splits)

lemma substitute_push_char:
  "substitute_from t pre (fst (push_char c r)) (snd (push_char c r))
     = c # substitute_from t (pre @ [c]) (fst r) (snd r)"
  by (cases r; cases "fst r") (auto simp: push_char_def)

lemma replace_all_from_matches:
  "replace_all_from p t pre s
     = substitute_from t pre (fst (find_matches p s)) (snd (find_matches p s))"
proof (induction p s arbitrary: pre rule: find_matches.induct)
  case (1 p)
  then show ?case by simp
next
  case (2 p c cs)
  show ?case
  proof (cases "match_here p (c # cs)")
    case None
    then show ?thesis using 2(1) [OF None] by (simp add: substitute_push_char)
  next
    case (Some n)
    show ?thesis
    proof (cases "n = 0")
      case True
      then show ?thesis using Some 2(2) [OF Some True] by (simp add: substitute_push_char)
    next
      case False
      have "replace_all_from p t pre (c # cs)
            = get_substitution (take n (c # cs)) pre (drop n (c # cs)) t
              @ replace_all_from p t (pre @ take n (c # cs)) (drop n (c # cs))"
        using Some False by simp
      also have "replace_all_from p t (pre @ take n (c # cs)) (drop n (c # cs))
            = substitute_from t (pre @ take n (c # cs))
                (fst (find_matches p (drop n (c # cs)))) (snd (find_matches p (drop n (c # cs))))"
        by (rule 2(3) [OF Some False])
      finally show ?thesis
        using Some False by (simp add: find_matches_original)
    qed
  qed
qed

lemma leftmost_push_char:
  assumes "match_here p (c # original_text (fst r) (snd r)) \<in> {None, Some 0}"
    and "leftmost_matches p (fst r) (snd r)"
  shows "leftmost_matches p (fst (push_char c r)) (snd (push_char c r))"
  using assms by (cases r; cases "fst r") (auto simp: push_char_def)

lemma find_matches_leftmost:
  "leftmost_matches p (fst (find_matches p s)) (snd (find_matches p s))"
proof (induction p s rule: find_matches.induct)
  case (1 p)
  then show ?case by simp
next
  case (2 p c cs)
  show ?case
  proof (cases "match_here p (c # cs)")
    case None
    then show ?thesis
      using 2(1) [OF None] by (simp add: leftmost_push_char find_matches_original)
  next
    case (Some n)
    show ?thesis
    proof (cases "n = 0")
      case True
      then show ?thesis
        using Some 2(2) [OF Some True] by (simp add: leftmost_push_char find_matches_original)
    next
      case False
      have le: "n \<le> length (c # cs)" using Some by (rule match_here_le)
      have "match_here p (take n (c # cs) @ drop n (c # cs)) = Some (length (take n (c # cs)))"
        using Some le by (simp only: append_take_drop_id length_take min_absorb2)
      moreover have "0 < length (take n (c # cs))" using False le by simp
      ultimately show ?thesis
        using Some False 2(3) [OF Some False]
        by (simp add: find_matches_original del: append_take_drop_id)
    qed
  qed
qed

text \<open>
  C8, amended.  For each slide the re-encoder applies the text substitution once for every
  element of type text that the slide holds at export time, in the order of the elements,
  changed or not (it never looks at the change history).  A substitution scans the slide
  part from the left for the pattern \<open><a:t[^>]*>.*?</a:t>\<close> and replaces every match, not only
  the first, by \<open><a:t>\<close>, the element's text and \<open></a:t>\<close>, read as a replacement template in
  which \<open>$$\<close>, \<open>$&\<close>, \<open>$`\<close> and \<open>$'\<close> are expanded; the text between the matches stays.  The
  updates for image and shape elements return the XML as it is.
\<close>

theorem text_substitution_replaces_every_match:
  "updateImageElement h xml e = xml
   \<and> updateShapeElement h xml e = xml
   \<and> updateSlideXML h xml slide
       = foldl (updateTextElement h) xml (filter (is_text_element h) (elements slide))
   \<and> original_text (fst (find_matches textPattern xml)) (snd (find_matches textPattern xml)) = xml
   \<and> leftmost_matches textPattern
         (fst (find_matches textPattern xml)) (snd (find_matches textPattern xml))
   \<and> updateTextElement h xml e
       = substitute_from (''<a:t>'' @ element_text_of h e @ ''</a:t>'') []
           (fst (find_matches textPattern xml)) (snd (find_matches textPattern xml))"
  by (simp add: updateImageElement_def updateShapeElement_def updateSlideXML_def
      updateSlideXML_text_elements find_matches_original find_matches_leftmost
      updateTextElement_def replace_all_def element_text_of_def replace_all_from_matches)

lemma textbox_editor_loaded:
  "document (loadPPTX (new_PPTXEditor no_options) z (textbox_document ts))
     = Some \<lparr>slides = [\<lparr>s_id = ''slide-1'', slideNumber = 1, elements = [4],
                        background = None, layout = Some ''default'',
                        imageDataResolved = False\<rparr>],
             metadata = \<lparr>title = [], author = [], subject = [], md_keywords = [],
                          created = DateNow, modified = DateNow\<rparr>,
             theme = None\<rparr>"
  "is_text_element (heap (loadPPTX (new_PPTXEditor no_options) z (textbox_document ts))) 4"
  "element_text_of (heap (loadPPTX (new_PPTXEditor no_options) z (textbox_document ts))) 4 = concat ts"
  "originalZip (loadPPTX (new_PPTXEditor no_options) z (textbox_document ts)) = Some z"
  "has_exporter (loadPPTX (new_PPTXEditor no_options) z (textbox_document ts))"
  "st_changes (state (loadPPTX (new_PPTXEditor no_options) z (textbox_document ts))) = []"
  "currentSlide (state (loadPPTX (new_PPTXEditor no_options) z (textbox_document ts))) = 0"
  by (simp_all add: loadPPTX_def new_PPTXEditor_def store_defs textbox_document_def
      textbox_element_def updateState_def is_text_element_def element_text_of_def
      text_or_undefined_def empty_content_def getChangeHistory_def clearHistory_def
      new_ChangeTracker_def Let_def split_def)

lemmas hello_loaded =
  textbox_editor_loaded [of hello_zip "[''Hello'']", folded hello_parsed hello_editor_def]

lemmas two_runs_loaded =
  textbox_editor_loaded [of two_runs_zip "[''Hello'', ''World'']", folded two_runs_parsed two_runs_editor_def]

lemma sample_matches:
  "find_matches textPattern ''<a:r><a:t>A</a:t></a:r><a:r><a:t xml:space=\"preserve\">B</a:t></a:r>''
     = ([(''<a:r>'', ''<a:t>A</a:t>''),
         (''</a:r><a:r>'', ''<a:t xml:space=\"preserve\">B</a:t>'')], ''</a:r>'')"
  "find_matches textPattern ''<a:tailEnd/><a:r><a:t>T</a:t></a:r>''
     = ([([], ''<a:tailEnd/><a:r><a:t>T</a:t>'')], ''</a:r>'')"
  "find_matches textPattern ''<a:t>x</a:t>'' = ([([], ''<a:t>x</a:t>'')], [])"
  by (simp_all add: match_here_def textPattern_def startsWith_def push_char_def
      is_line_terminator_def)

text \<open>
  The theorem on three inputs: two runs, the second with an attribute; an element whose
  name begins with \<open>a:t\<close> in front of a run, which the pattern takes for the opening tag;
  and an element text with \<open>$$\<close>, which the template reads as one dollar sign.
\<close>

theorem text_substitution_replaces_every_match_witness:
  "updateTextElement (heap hello_editor)
       ''<a:r><a:t>A</a:t></a:r><a:r><a:t xml:space=\"preserve\">B</a:t></a:r>'' 4
     = ''<a:r><a:t>Hello</a:t></a:r><a:r><a:t>Hello</a:t></a:r>''
   \<and> updateTextElement (heap hello_editor) ''<a:tailEnd/><a:r><a:t>T</a:t></a:r>'' 4
     = ''<a:t>Hello</a:t></a:r>''
   \<and> updateTextElement
       (heap (loadPPTX (new_PPTXEditor no_options) hello_zip (textbox_document [''a$$b''])))
       ''<a:t>x</a:t>'' 4
     = ''<a:t>a$b</a:t>''"
proof -
  have t: "element_text_of (heap hello_editor) 4 = ''Hello''"
    using hello_loaded(3) by simp
  have d: "element_text_of
             (heap (loadPPTX (new_PPTXEditor no_options) hello_zip (textbox_document [''a$$b'']))) 4
           = ''a$$b''"
    using textbox_editor_loaded(3) [of hello_zip "[''a$$b'']"] by simp
  note last = conjunct2 [THEN conjunct2, THEN conjunct2, THEN conjunct2, THEN conjunct2]
  have "updateTextElement (heap hello_editor)
       ''<a:r><a:t>A</a:t></a:r><a:r><a:t xml:space=\"preserve\">B</a:t></a:r>'' 4
     = ''<a:r><a:t>Hello</a:t></a:r><a:r><a:t>Hello</a:t></a:r>''"
    using text_substitution_replaces_every_match
        [of "heap hello_editor"
          "''<a:r><a:t>A</a:t></a:r><a:r><a:t xml:space=\"preserve\">B</a:t></a:r>''" 4,
          THEN last]
    unfolding sample_matches t by simp
  moreover have "updateTextElement (heap hello_editor) ''<a:tailEnd/><a:r><a:t>T</a:t></a:r>'' 4
     = ''<a:t>Hello</a:t></a:r>''"
    using text_substitution_replaces_every_match
        [of "heap hello_editor" "''<a:tailEnd/><a:r><a:t>T</a:t></a:r>''" 4, THEN last]
    unfolding sample_matches t by simp
  moreover have "updateTextElement
       (heap (loadPPTX (new_PPTXEditor no_options) hello_zip (textbox_document [''a$$b''])))
       ''<a:t>x</a:t>'' 4
     = ''<a:t>a$b</a:t>''"
    using text_substitution_replaces_every_match
        [of "heap (loadPPTX (new_PPTXEditor no_options) hello_zip (textbox_document [''a$$b'']))"
          "''<a:t>x</a:t>''" 4, THEN last]
    unfolding sample_matches d by simp
  ultimately show ?thesis by simp
qed

lemma two_runs_as_pieces:
  "two_runs_slide_xml = xml_with_runs two_runs_pieces txBox_tail"
  "xml_with_runs (map (with_text ''HelloWorld'') two_runs_pieces) txBox_tail
     = sld_open @ txBox_xml [''HelloWorld'', ''HelloWorld''] @ sld_close"
  by (simp_all add: two_runs_slide_xml_def two_runs_pieces_def txBox_head_def txBox_tail_def
      txBox_xml_def txBody_xml_def run_xml_def with_text_def)

lemma two_runs_separable: "runs_separable two_runs_pieces txBox_tail"
  by (simp add: two_runs_pieces_def txBox_head_def txBox_tail_def sld_open_def sld_close_def
      spPr_xml_def startsWith_def is_line_terminator_def)

lemma two_runs_current_slide:
  "getCurrentSlide two_runs_editor
     = Some \<lparr>s_id = ''slide-1'', slideNumber = 1, elements = [4], background = None,
             layout = Some ''default'', imageDataResolved = False\<rparr>"
  by (simp add: getCurrentSlide_def two_runs_loaded js_index_def)

lemma two_runs_updateTextElement:
  "updateTextElement (heap two_runs_editor) two_runs_slide_xml 4
     = sld_open @ txBox_xml [''HelloWorld'', ''HelloWorld''] @ sld_close"
proof -
  have d: "CHR ''$'' \<notin> set ''HelloWorld''" by simp
  have "replace_all_from textPattern (''<a:t>'' @ ''HelloWorld'' @ ''</a:t>'') []
          (xml_with_runs two_runs_pieces txBox_tail)
        = xml_with_runs (map (with_text ''HelloWorld'') two_runs_pieces) txBox_tail"
    by (rule replace_all_runs [OF d two_runs_separable])
  then show ?thesis
    using two_runs_loaded(3)
    by (simp only: updateTextElement_def replace_all_def two_runs_as_pieces
        element_text_of_def concat.simps append_Nil2 append_Cons append_Nil)
qed

text \<open>
  C8 as stated fails on the second sample right after loading.  No element has changed,
  yet the substitution is applied and the slide XML comes out different.  And the
  substitution replaces every text node it finds: in a run that holds two text nodes both
  are replaced, where the specified behaviour would replace the first one only.
\<close>

theorem unchanged_text_box_all_runs_rewritten:
  "st_changes (state two_runs_editor) = []
   \<and> map_option (updateSlideXML (heap two_runs_editor) two_runs_slide_xml)
        (getCurrentSlide two_runs_editor)
       = Some (sld_open @ txBox_xml [''HelloWorld'', ''HelloWorld''] @ sld_close)
   \<and> sld_open @ txBox_xml [''HelloWorld'', ''HelloWorld''] @ sld_close \<noteq> two_runs_slide_xml
   \<and> updateTextElement (heap two_runs_editor) ''<a:r><a:t>A</a:t><a:t>B</a:t></a:r>'' 4
       = ''<a:r><a:t>HelloWorld</a:t><a:t>HelloWorld</a:t></a:r>''
   \<and> spec_updateTextElement (heap two_runs_editor) ''<a:r><a:t>A</a:t><a:t>B</a:t></a:r>'' 4
       = ''<a:r><a:t>HelloWorld</a:t><a:t>B</a:t></a:r>''"
proof -
  have d: "CHR ''$'' \<notin> set ''HelloWorld''" by simp
  have sep: "runs_separable ((''<a:r>'', [], ''A'') # tl double_node_pieces) ''</a:r>''"
    "runs_separable double_node_pieces ''</a:r>''"
    by (simp_all add: double_node_pieces_def startsWith_def is_line_terminator_def)
  have x: "xml_with_runs double_node_pieces ''</a:r>'' = ''<a:r><a:t>A</a:t><a:t>B</a:t></a:r>''"
    "xml_with_runs ((''<a:r>'', [], ''A'') # tl double_node_pieces) ''</a:r>''
       = ''<a:r><a:t>A</a:t><a:t>B</a:t></a:r>''"
    "xml_with_runs (map (with_text ''HelloWorld'') double_node_pieces) ''</a:r>''
       = ''<a:r><a:t>HelloWorld</a:t><a:t>HelloWorld</a:t></a:r>''"
    "''<a:r>'' @ ''<a:t>'' @ ''HelloWorld'' @ ''</a:t>'' @ xml_with_runs (tl double_node_pieces) ''</a:r>''
       = ''<a:r><a:t>HelloWorld</a:t><a:t>B</a:t></a:r>''"
    by (simp_all add: double_node_pieces_def with_text_def)
  have t: "element_text_of (heap two_runs_editor) 4 = ''HelloWorld''"
    using two_runs_loaded(3) by simp
  have "replace_all_from textPattern (''<a:t>'' @ ''HelloWorld'' @ ''</a:t>'') []
          (xml_with_runs double_node_pieces ''</a:r>'')
        = xml_with_runs (map (with_text ''HelloWorld'') double_node_pieces) ''</a:r>''"
    by (rule replace_all_runs [OF d sep(2)])
  then have all: "updateTextElement (heap two_runs_editor) ''<a:r><a:t>A</a:t><a:t>B</a:t></a:r>'' 4
        = ''<a:r><a:t>HelloWorld</a:t><a:t>HelloWorld</a:t></a:r>''"
    using t unfolding x
    by (simp add: updateTextElement_def replace_all_def element_text_of_def)
  have "replace_first_from textPattern (''<a:t>'' @ ''HelloWorld'' @ ''</a:t>'') []
          (xml_with_runs ((''<a:r>'', [], ''A'') # tl double_node_pieces) ''</a:r>'')
        = ''<a:r>'' @ ''<a:t>'' @ ''HelloWorld'' @ ''</a:t>'' @ xml_with_runs (tl double_node_pieces) ''</a:r>''"
    by (rule replace_first_runs [OF d sep(1)])
  then have spec: "spec_updateTextElement (heap two_runs_editor) ''<a:r><a:t>A</a:t><a:t>B</a:t></a:r>'' 4
        = ''<a:r><a:t>HelloWorld</a:t><a:t>B</a:t></a:r>''"
    using t unfolding x
    by (simp add: spec_updateTextElement_def replace_first_def element_text_of_def)
  have code: "updateSlideXML (heap two_runs_editor) two_runs_slide_xml
          \<lparr>s_id = ''slide-1'', slideNumber = 1, elements = [4], background = None,
             layout = Some ''default'', imageDataResolved = False\<rparr>
        = sld_open @ txBox_xml [''HelloWorld'', ''HelloWorld''] @ sld_close"
    using two_runs_loaded(2)
    by (simp add: updateSlideXML_def update_element_xml_def is_text_element_def
        two_runs_updateTextElement)
  have ne: "sld_open @ txBox_xml [''HelloWorld'', ''HelloWorld''] @ sld_close \<noteq> two_runs_slide_xml"
    by (simp add: two_runs_slide_xml_def txBox_xml_def txBody_xml_def run_xml_def)
  show ?thesis
    using two_runs_loaded(6) two_runs_current_slide code ne all spec by simp
qed

section \<open>Export after load\<close>







lemma zip_text_same:
  "zip_file z path = zip_file z' path \<Longrightarrow> zip_text rt z path = zip_text rt z' path"
  by (simp add: zip_text_def)


































end
